theory Spec2Isabelle
  imports Complex_Main
begin

section \<open>JavaScript numbers\<close>

text \<open>
  A JavaScript \<open>number\<close> is modelled as an exact real extended by \<open>NaN\<close> and the two
  infinities. The binary rounding of IEEE doubles and the sign of zero are not modelled:
  every finite operation is exact. An optional parameter (\<open>alpha?: number\<close>) is a
  \<open>jsnum option\<close>, with \<open>None\<close> for \<open>undefined\<close>.
\<close>

datatype jsnum = NaN | PInf | NInf | Num real

fun isNaN :: "jsnum \<Rightarrow> bool" where
  "isNaN NaN = True"
| "isNaN _ = False"

text \<open>Truthiness of a number: \<open>0\<close> and \<open>NaN\<close> are falsy; \<open>undefined\<close> is falsy.\<close>

fun truthy :: "jsnum \<Rightarrow> bool" where
  "truthy NaN = False"
| "truthy (Num q) = (q \<noteq> 0)"
| "truthy _ = True"

text \<open>The comparison \<open>a < b\<close>; every comparison with \<open>NaN\<close> is false.\<close>

fun js_lt :: "jsnum \<Rightarrow> jsnum \<Rightarrow> bool" where
  "js_lt NaN _ = False"
| "js_lt _ NaN = False"
| "js_lt (Num a) (Num b) = (a < b)"
| "js_lt _ NInf = False"
| "js_lt PInf _ = False"
| "js_lt NInf _ = True"
| "js_lt (Num a) PInf = True"

definition js_gt :: "jsnum \<Rightarrow> jsnum \<Rightarrow> bool" where
  "js_gt a b = js_lt b a"

definition js_ge :: "jsnum \<Rightarrow> jsnum \<Rightarrow> bool" where
  "js_ge a b = (\<not> isNaN a \<and> \<not> isNaN b \<and> \<not> js_lt a b)"

fun js_neg :: "jsnum \<Rightarrow> jsnum" where
  "js_neg NaN = NaN"
| "js_neg PInf = NInf"
| "js_neg NInf = PInf"
| "js_neg (Num a) = Num (- a)"

fun js_abs :: "jsnum \<Rightarrow> jsnum" where
  "js_abs NaN = NaN"
| "js_abs (Num a) = Num \<bar>a\<bar>"
| "js_abs _ = PInf"

fun js_add :: "jsnum \<Rightarrow> jsnum \<Rightarrow> jsnum" where
  "js_add NaN _ = NaN"
| "js_add _ NaN = NaN"
| "js_add (Num a) (Num b) = Num (a + b)"
| "js_add PInf NInf = NaN"
| "js_add NInf PInf = NaN"
| "js_add PInf _ = PInf"
| "js_add NInf _ = NInf"
| "js_add (Num a) b = b"

definition js_sub :: "jsnum \<Rightarrow> jsnum \<Rightarrow> jsnum" where
  "js_sub a b = js_add a (js_neg b)"

text \<open>The sign of an infinite product or quotient, from a finite factor.\<close>

definition signed_inf :: "jsnum \<Rightarrow> real \<Rightarrow> jsnum" where
  "signed_inf i a = (if a = 0 then NaN else if 0 < a then i else js_neg i)"

fun js_mul :: "jsnum \<Rightarrow> jsnum \<Rightarrow> jsnum" where
  "js_mul NaN _ = NaN"
| "js_mul _ NaN = NaN"
| "js_mul (Num a) (Num b) = Num (a * b)"
| "js_mul (Num a) b = signed_inf b a"
| "js_mul a (Num b) = signed_inf a b"
| "js_mul PInf b = b"
| "js_mul NInf b = js_neg b"

fun js_div :: "jsnum \<Rightarrow> jsnum \<Rightarrow> jsnum" where
  "js_div NaN _ = NaN"
| "js_div _ NaN = NaN"
| "js_div (Num a) (Num b) = (if b = 0 then signed_inf PInf a else Num (a / b))"
| "js_div (Num a) _ = Num 0"
| "js_div a (Num b) = (if 0 \<le> b then a else js_neg a)"
| "js_div _ _ = NaN"

text \<open>The remainder \<open>a % b\<close> takes the sign of the dividend.\<close>

definition js_trunc :: "real \<Rightarrow> int" where
  "js_trunc x = (if 0 \<le> x then \<lfloor>x\<rfloor> else \<lceil>x\<rceil>)"

fun js_mod :: "jsnum \<Rightarrow> jsnum \<Rightarrow> jsnum" where
  "js_mod (Num a) (Num b) = (if b = 0 then NaN else Num (a - b * of_int (js_trunc (a / b))))"
| "js_mod (Num a) PInf = Num a"
| "js_mod (Num a) NInf = Num a"
| "js_mod _ _ = NaN"

fun Math_max2 :: "jsnum \<Rightarrow> jsnum \<Rightarrow> jsnum" where
  "Math_max2 a b = (if isNaN a \<or> isNaN b then NaN else if js_lt a b then b else a)"

fun Math_min2 :: "jsnum \<Rightarrow> jsnum \<Rightarrow> jsnum" where
  "Math_min2 a b = (if isNaN a \<or> isNaN b then NaN else if js_lt b a then b else a)"

definition Math_max :: "jsnum \<Rightarrow> jsnum \<Rightarrow> jsnum \<Rightarrow> jsnum" where
  "Math_max a b c = Math_max2 (Math_max2 a b) c"

definition Math_min :: "jsnum \<Rightarrow> jsnum \<Rightarrow> jsnum \<Rightarrow> jsnum" where
  "Math_min a b c = Math_min2 (Math_min2 a b) c"

text \<open>\<open>Math.round\<close> is \<open>floor(x + 0.5)\<close>: a tie goes up, towards plus infinity.\<close>

fun Math_round :: "jsnum \<Rightarrow> jsnum" where
  "Math_round (Num q) = Num (of_int \<lfloor>q + 1 / 2\<rfloor>)"
| "Math_round x = x"

section \<open>Numeric helpers (helpers/Round, helpers/DefaultAlpha)\<close>

text \<open>
  \<open>const round = (number, decimals = 0) => { const offset = decimals ? 10 ** decimals : 1;
  return Math.round(number * offset) / offset; }\<close>. The decimal count is a natural number;
  the function is named \<open>round_js\<close> here, \<open>round\<close> being a constant of HOL. With zero
  decimals the offset is \<open>1\<close> and the product and the quotient are exact in doubles as they
  are here. With more decimals the product \<open>number * offset\<close> of the source is a double and
  may differ from the exact product taken here, so that a value next to a tie can round the
  other way.
\<close>

definition round_js :: "jsnum \<Rightarrow> nat \<Rightarrow> jsnum" where
  "round_js number decimals =
     (let offset = (if decimals \<noteq> 0 then Num (10 ^ decimals) else Num 1)
      in js_div (Math_round (js_mul number offset)) offset)"

text \<open>\<open>defaultAlpha = (alpha?) => (alpha !== undefined ? round(alpha, 2) : 1)\<close>\<close>

definition defaultAlpha :: "jsnum option \<Rightarrow> jsnum" where
  "defaultAlpha alpha = (case alpha of Some a \<Rightarrow> round_js a 2 | None \<Rightarrow> Num 1)"

text \<open>
  Rounding half away from zero, as the specification words it: the magnitude is rounded
  with ties going up and the sign is restored.
\<close>

definition round_half_away :: "real \<Rightarrow> nat \<Rightarrow> real" where
  "round_half_away v d = sgn v * of_int \<lfloor>\<bar>v\<bar> * 10 ^ d + 1 / 2\<rfloor> / 10 ^ d"

section \<open>Errors (errors/ColorError)\<close>

text \<open>
  Every error is a \<open>ColorError\<close> built by one of the static constructors, which differ in
  the message they build; the constructor used is the error's kind. The argument is the
  offending input: a string, or the template string that \<open>validateRgb\<close> and
  \<open>validateHsl\<close> build from their numeric arguments, kept here as its parts.
\<close>

datatype colorString =
    Str string
  | RgbString jsnum jsnum jsnum
  | RgbaString jsnum jsnum jsnum jsnum
  | HslString jsnum jsnum jsnum
  | HslaString jsnum jsnum jsnum jsnum

datatype ColorError =
    InvalidColor colorString
  | InvalidHexCode colorString
  | InvalidRGBCode colorString
  | InvalidHSLCode colorString
  | InvalidValue colorString

section \<open>Strings\<close>

text \<open>
  \<open>toUpperCase\<close> on the ASCII letters; \<open>s[i]\<close> inside a template literal, which
  renders an index out of range as the text \<open>undefined\<close>; \<open>padStart(2, "0")\<close>.
\<close>

definition toUpperChar :: "char \<Rightarrow> char" where
  "toUpperChar c =
     (case map_of (zip ''abcdefghijklmnopqrstuvwxyz'' ''ABCDEFGHIJKLMNOPQRSTUVWXYZ'') c of
        Some u \<Rightarrow> u
      | None \<Rightarrow> c)"

definition toUpperCase :: "string \<Rightarrow> string" where
  "toUpperCase s = map toUpperChar s"

definition charAt :: "string \<Rightarrow> nat \<Rightarrow> string" where
  "charAt s i = (if i < length s then [s ! i] else ''undefined'')"

definition padStart2 :: "string \<Rightarrow> string" where
  "padStart2 s = replicate (2 - length s) (CHR ''0'') @ s"

text \<open>
  \<open>n.toString(16)\<close>: lowercase digits, most significant first. The callers pass results
  of \<open>Math.round\<close> only, so the digits after the point of a fraction are left out.
\<close>

definition hexDigitChar :: "nat \<Rightarrow> char" where
  "hexDigitChar d = ''0123456789abcdef'' ! (d mod 16)"

function natToHex :: "nat \<Rightarrow> string" where
  "natToHex n = (if n < 16 then [hexDigitChar n] else natToHex (n div 16) @ [hexDigitChar n])"
  by pat_completeness auto
termination
  by (relation "measure id") auto

declare natToHex.simps [simp del]

fun toString16 :: "jsnum \<Rightarrow> string" where
  "toString16 NaN = ''NaN''"
| "toString16 PInf = ''Infinity''"
| "toString16 NInf = ''-Infinity''"
| "toString16 (Num q) = (if q < 0 then ''-'' else []) @ natToHex (nat \<lfloor>\<bar>q\<bar>\<rfloor>)"

text \<open>
  \<open>parseInt(string, 16)\<close>: the value of the longest prefix of hexadecimal digits, \<open>NaN\<close>
  when there is none (the callers pass two characters of a normalized hex code, so the
  leading white space, sign and \<open>0x\<close> that \<open>parseInt\<close> also accepts are left out).
\<close>

definition isHexDigit :: "char \<Rightarrow> bool" where
  "isHexDigit c = (c \<in> set ''0123456789abcdefABCDEF'')"

definition hexDigitValue :: "char \<Rightarrow> nat" where
  "hexDigitValue c =
     (case map_of (zip ''0123456789abcdefABCDEF''
                       [0, 1, 2, 3, 4, 5, 6, 7, 8, 9, 10, 11, 12, 13, 14, 15, 10, 11, 12, 13, 14, 15]) c of
        Some v \<Rightarrow> v
      | None \<Rightarrow> 0)"

definition parseInt16 :: "string \<Rightarrow> jsnum" where
  "parseInt16 s =
     (let ds = takeWhile isHexDigit s
      in if ds = [] then NaN
         else Num (of_nat (foldl (\<lambda>acc c. 16 * acc + hexDigitValue c) 0 ds)))"

section \<open>RGB codec (formats/RedGreenBlue)\<close>

record RedGreenBlueAlpha =
  red :: jsnum
  green :: jsnum
  blue :: jsnum
  alpha :: jsnum

definition validateRgb ::
  "jsnum \<Rightarrow> jsnum \<Rightarrow> jsnum \<Rightarrow> jsnum option \<Rightarrow> ColorError + RedGreenBlueAlpha" where
  "validateRgb r g b a =
     (let colorString = (case a of
                           Some al \<Rightarrow> if truthy al then RgbaString r g b al else RgbString r g b
                         | None \<Rightarrow> RgbString r g b);
          colors = [r, g, b]
      in if list_ex (\<lambda>color. isNaN color \<or> js_lt color (Num 0) \<or> js_gt color (Num 255)) colors
         then Inl (InvalidRGBCode colorString)
         else if (case a of
                    Some al \<Rightarrow> truthy al \<and> (isNaN al \<or> js_lt al (Num 0) \<or> js_gt al (Num 1))
                  | None \<Rightarrow> False)
         then Inl (InvalidRGBCode colorString)
         else Inr \<lparr>red = Math_round r, green = Math_round g, blue = Math_round b,
                   alpha = defaultAlpha a\<rparr>)"

text \<open>Strict equality of numbers: \<open>NaN\<close> equals nothing.\<close>

definition js_eq :: "jsnum \<Rightarrow> jsnum \<Rightarrow> bool" where
  "js_eq a b = (\<not> isNaN a \<and> \<not> isNaN b \<and> a = b)"

definition rgbToHex :: "jsnum \<Rightarrow> jsnum \<Rightarrow> jsnum \<Rightarrow> jsnum option \<Rightarrow> ColorError + string" where
  "rgbToHex r g b a =
     (case validateRgb r g b a of
        Inl e \<Rightarrow> Inl e
      | Inr rgb \<Rightarrow>
          (let colors = toUpperCase (concat (map (\<lambda>color. padStart2 (toString16 color))
                          [RedGreenBlueAlpha.red rgb, RedGreenBlueAlpha.green rgb,
                           RedGreenBlueAlpha.blue rgb,
                           Math_round (js_mul (RedGreenBlueAlpha.alpha rgb) (Num 255))]))
           in Inr (''#'' @ colors)))"

section \<open>HSL codec (formats/HueSaturationLightness)\<close>

record HueSaturationLightnessAlpha =
  hue :: jsnum
  saturation :: jsnum
  lightness :: jsnum
  alpha :: jsnum

definition validateHsl ::
  "jsnum \<Rightarrow> jsnum \<Rightarrow> jsnum \<Rightarrow> jsnum option
     \<Rightarrow> ColorError + HueSaturationLightnessAlpha" where
  "validateHsl h s l a =
     (let colorString = (case a of
                           Some al \<Rightarrow>
                             if truthy al
                             then HslaString h (js_mul s (Num 100)) (js_mul l (Num 100)) al
                             else HslString h (js_mul s (Num 100)) (js_mul l (Num 100))
                         | None \<Rightarrow> HslString h (js_mul s (Num 100)) (js_mul l (Num 100)))
      in if isNaN h \<or> js_lt h (Num 0) \<or> js_ge h (Num 360) then Inl (InvalidHSLCode colorString)
         else if isNaN s \<or> js_lt s (Num 0) \<or> js_gt s (Num 1) then Inl (InvalidHSLCode colorString)
         else if isNaN l \<or> js_lt l (Num 0) \<or> js_gt l (Num 1) then Inl (InvalidHSLCode colorString)
         else if (case a of
                    Some al \<Rightarrow> truthy al \<and> (isNaN al \<or> js_lt al (Num 0) \<or> js_gt al (Num 1))
                  | None \<Rightarrow> False)
         then Inl (InvalidHSLCode colorString)
         else Inr \<lparr>hue = round_js h 0, saturation = round_js s 2, lightness = round_js l 2,
                   alpha = defaultAlpha a\<rparr>)"

definition rgbToHsl ::
  "jsnum \<Rightarrow> jsnum \<Rightarrow> jsnum \<Rightarrow> jsnum option
     \<Rightarrow> ColorError + HueSaturationLightnessAlpha" where
  "rgbToHsl r g b a =
     (case validateRgb r g b a of
        Inl e \<Rightarrow> Inl e
      | Inr rgb \<Rightarrow>
          (let redv = RedGreenBlueAlpha.red rgb;
               greenv = RedGreenBlueAlpha.green rgb;
               bluev = RedGreenBlueAlpha.blue rgb;
               alphav = RedGreenBlueAlpha.alpha rgb;
               maxv = Math_max redv greenv bluev;
               minv = Math_min redv greenv bluev;
               delta = js_sub maxv minv;
               average = js_div (js_add maxv minv) (Num 2);
               lightnessv = round_js (js_div average (Num 255)) 2;
               saturationv =
                 (if js_eq delta (Num 0) then Num 0
                  else round_js
                         (js_div
                            (js_div delta
                               (js_sub (Num 1)
                                  (js_abs (js_sub (js_mul lightnessv (Num 2)) (Num 1)))))
                            (Num 255)) 2);
               hue0 =
                 (if js_eq delta (Num 0) then Num 0
                  else if js_eq maxv redv then js_mod (js_div (js_sub greenv bluev) delta) (Num 6)
                  else if js_eq maxv greenv
                    then js_add (js_div (js_sub bluev redv) (js_sub maxv minv)) (Num 2)
                  else js_add (js_div (js_sub redv greenv) (js_sub maxv minv)) (Num 4));
               hue1 = Math_round (js_mul hue0 (Num 60));
               hue2 = (if js_lt hue1 (Num 0) then js_add hue1 (Num 360) else hue1)
           in Inr \<lparr>hue = hue2, saturation = saturationv, lightness = lightnessv,
                     alpha = alphav\<rparr>))"

definition huePrimeToRGB :: "jsnum \<Rightarrow> jsnum \<Rightarrow> jsnum \<Rightarrow> jsnum \<times> jsnum \<times> jsnum" where
  "huePrimeToRGB huePrime chroma position =
     (if js_lt huePrime (Num 1) then (chroma, position, Num 0)
      else if js_lt huePrime (Num 2) then (position, chroma, Num 0)
      else if js_lt huePrime (Num 3) then (Num 0, chroma, position)
      else if js_lt huePrime (Num 4) then (Num 0, position, chroma)
      else if js_lt huePrime (Num 5) then (position, Num 0, chroma)
      else (chroma, Num 0, position))"

definition hslToRgb ::
  "jsnum \<Rightarrow> jsnum \<Rightarrow> jsnum \<Rightarrow> jsnum option \<Rightarrow> ColorError + RedGreenBlueAlpha" where
  "hslToRgb h s l a =
     (case validateHsl h s l a of
        Inl e \<Rightarrow> Inl e
      | Inr hsl \<Rightarrow>
          (let huev = HueSaturationLightnessAlpha.hue hsl;
               saturationv = HueSaturationLightnessAlpha.saturation hsl;
               lightnessv = HueSaturationLightnessAlpha.lightness hsl;
               alphav = HueSaturationLightnessAlpha.alpha hsl;
               chroma = js_mul (js_sub (Num 1) (js_abs (js_sub (js_mul (Num 2) lightnessv) (Num 1))))
                          saturationv;
               huePrime = js_div huev (Num 60);
               position = js_mul chroma
                            (js_sub (Num 1) (js_abs (js_sub (js_mod huePrime (Num 2)) (Num 1))));
               lightnessPrime = js_sub lightnessv (js_div chroma (Num 2));
               (redPrime, greenPrime, bluePrime) = huePrimeToRGB huePrime chroma position
           in Inr \<lparr>RedGreenBlueAlpha.red = round_js (js_mul (js_add redPrime lightnessPrime) (Num 255)) 0,
                     green = round_js (js_mul (js_add greenPrime lightnessPrime) (Num 255)) 0,
                     blue = round_js (js_mul (js_add bluePrime lightnessPrime) (Num 255)) 0,
                     alpha = alphav\<rparr>))"

section \<open>Hex codec (formats/Hex)\<close>

text \<open>
  \<open>HEX_REGEX = /^#([A-Fa-f0-9]{3}|[A-Fa-f0-9]{6}|[A-Fa-f0-9]{8})$/\<close>: a \<open>#\<close> and then
  exactly three, six or eight hexadecimal digits.
\<close>

definition HEX_REGEX :: "string \<Rightarrow> bool" where
  "HEX_REGEX s =
     (case s of
        [] \<Rightarrow> False
      | c # ds \<Rightarrow> c = CHR ''#'' \<and> (length ds = 3 \<or> length ds = 6 \<or> length ds = 8)
                   \<and> list_all isHexDigit ds)"

definition stringToDecimals :: "string \<Rightarrow> jsnum" where
  "stringToDecimals s = parseInt16 s"

definition parseHex :: "string \<Rightarrow> ColorError + string" where
  "parseHex s =
     (if \<not> HEX_REGEX s then Inl (InvalidHexCode (Str s))
      else if length s = 4 then
        (let redv = charAt s 1 @ charAt s 1;
             greenv = charAt s 2 @ charAt s 2;
             bluev = charAt s 3 @ charAt s 3;
             alphav = (if 4 < length s then charAt s 4 @ charAt s 4 else ''FF'')
         in Inr (toUpperCase (''#'' @ redv @ greenv @ bluev @ alphav)))
      else if length s = 7 then Inr (toUpperCase (s @ ''FF''))
      else Inr (toUpperCase s))"

definition hexToRgb :: "string \<Rightarrow> ColorError + RedGreenBlueAlpha" where
  "hexToRgb s =
     (case parseHex s of
        Inl e \<Rightarrow> Inl e
      | Inr hex \<Rightarrow>
          Inr \<lparr>RedGreenBlueAlpha.red = stringToDecimals (charAt hex 1 @ charAt hex 2),
                green = stringToDecimals (charAt hex 3 @ charAt hex 4),
                blue = stringToDecimals (charAt hex 5 @ charAt hex 6),
                alpha = round_js (js_div (stringToDecimals (charAt hex 7 @ charAt hex 8)) (Num 255)) 2\<rparr>)"

section \<open>Parsing the functional notations\<close>

text \<open>
  The two patterns are
  \<open>RGB_HEX = /^rgba?\(\s*(\d{1,3})\s*,\s*(\d{1,3})\s*,\s*(\d{1,3})(?:,\s*([0-1](?:\.\d+)?))?\s*\)$/\<close>
  and
  \<open>HSL_REGEX = /^hsla?\(\s*(\d{1,3})\s*,\s*(\d{1,3})%\s*,\s*(\d{1,3})%(?:,\s*([0-1](?:\.\d+)?))?\s*\)$/\<close>.
  Each is matched from left to right by the functions below, one per piece of the pattern,
  which return the text that is left. No piece can be followed by a character that the
  piece itself accepts, so the greedy match is the only one and no backtracking is needed.
  A match yields the capture groups, the fourth one optional.
\<close>

definition isDigit :: "char \<Rightarrow> bool" where
  "isDigit c = (c \<in> set ''0123456789'')"

text \<open>The class \<open>\s\<close>, on the ASCII characters.\<close>

definition isSpace :: "char \<Rightarrow> bool" where
  "isSpace c = (c \<in> set [CHR '' '', CHR 0x09, CHR 0x0A, CHR 0x0B, CHR 0x0C, CHR 0x0D])"

definition lit :: "string \<Rightarrow> string \<Rightarrow> string option" where
  "lit p s = (if take (length p) s = p then Some (drop (length p) s) else None)"

definition optLit :: "string \<Rightarrow> string \<Rightarrow> string" where
  "optLit p s = (case lit p s of Some r \<Rightarrow> r | None \<Rightarrow> s)"

definition spaces :: "string \<Rightarrow> string" where
  "spaces s = dropWhile isSpace s"

definition digits13 :: "string \<Rightarrow> (string \<times> string) option" where
  "digits13 s =
     (let ds = takeWhile isDigit (take 3 s)
      in if ds = [] then None else Some (ds, drop (length ds) s))"

text \<open>The group \<open>([0-1](?:\.\d+)?)\<close>.\<close>

definition alphaText :: "string \<Rightarrow> (string \<times> string) option" where
  "alphaText s =
     (case s of
        [] \<Rightarrow> None
      | c # r \<Rightarrow>
          if c = CHR ''0'' \<or> c = CHR ''1'' then
            (case r of
               d # r' \<Rightarrow>
                 if d = CHR ''.'' \<and> takeWhile isDigit r' \<noteq> []
                 then Some (c # d # takeWhile isDigit r', dropWhile isDigit r')
                 else Some ([c], r)
             | [] \<Rightarrow> Some ([c], r))
          else None)"

text \<open>The tail \<open>(?:,\s*([0-1](?:\.\d+)?))?\s*\)$\<close> of both patterns.\<close>

definition alphaTail :: "string \<Rightarrow> string option option" where
  "alphaTail s =
     (case lit '','' s of
        Some r \<Rightarrow>
          (case alphaText (spaces r) of
             Some (a, r') \<Rightarrow> if spaces r' = '')'' then Some (Some a) else None
           | None \<Rightarrow> None)
      | None \<Rightarrow> if spaces s = '')'' then Some None else None)"

text \<open>A number followed by the separator \<open>\s*,\s*\<close>, with \<open>%\<close> before it for a percentage.\<close>

definition numberComma :: "string \<Rightarrow> string \<Rightarrow> (string \<times> string) option" where
  "numberComma unit s =
     (case digits13 s of
        None \<Rightarrow> None
      | Some (n, r) \<Rightarrow>
          (case lit unit r of
             None \<Rightarrow> None
           | Some r1 \<Rightarrow>
               (case lit '','' (spaces r1) of
                  None \<Rightarrow> None
                | Some r2 \<Rightarrow> Some (n, spaces r2))))"

definition RGB_HEX :: "string \<Rightarrow> (string \<times> string \<times> string \<times> string option) option" where
  "RGB_HEX s =
     (case lit ''rgb'' s of
        None \<Rightarrow> None
      | Some r0 \<Rightarrow>
          (case lit ''('' (optLit ''a'' r0) of
             None \<Rightarrow> None
           | Some r1 \<Rightarrow>
               (case numberComma [] (spaces r1) of
                  None \<Rightarrow> None
                | Some (c1, r2) \<Rightarrow>
                    (case numberComma [] r2 of
                       None \<Rightarrow> None
                     | Some (c2, r3) \<Rightarrow>
                         (case digits13 r3 of
                            None \<Rightarrow> None
                          | Some (c3, r4) \<Rightarrow>
                              (case alphaTail r4 of
                                 None \<Rightarrow> None
                               | Some c4 \<Rightarrow> Some (c1, c2, c3, c4)))))))"

definition HSL_REGEX :: "string \<Rightarrow> (string \<times> string \<times> string \<times> string option) option" where
  "HSL_REGEX s =
     (case lit ''hsl'' s of
        None \<Rightarrow> None
      | Some r0 \<Rightarrow>
          (case lit ''('' (optLit ''a'' r0) of
             None \<Rightarrow> None
           | Some r1 \<Rightarrow>
               (case numberComma [] (spaces r1) of
                  None \<Rightarrow> None
                | Some (c1, r2) \<Rightarrow>
                    (case numberComma ''%'' r2 of
                       None \<Rightarrow> None
                     | Some (c2, r3) \<Rightarrow>
                         (case digits13 r3 of
                            None \<Rightarrow> None
                          | Some (c3, r4) \<Rightarrow>
                              (case lit ''%'' r4 of
                                 None \<Rightarrow> None
                               | Some r5 \<Rightarrow>
                                   (case alphaTail r5 of
                                      None \<Rightarrow> None
                                    | Some c4 \<Rightarrow> Some (c1, c2, c3, c4))))))))"

text \<open>
  \<open>Number(text)\<close> on the text of a capture group: decimal digits, with an optional
  fraction after a point. A group that did not take part in the match is \<open>undefined\<close>,
  whose \<open>Number\<close> is \<open>NaN\<close>, and the \<open>map\<close> of the source turns it into \<open>undefined\<close>
  again.
\<close>

definition decimalValue :: "string \<Rightarrow> nat" where
  "decimalValue ds = foldl (\<lambda>acc c. 10 * acc + hexDigitValue c) 0 ds"

definition Number :: "string \<Rightarrow> jsnum" where
  "Number s =
     (let whole = takeWhile isDigit s
      in case dropWhile isDigit s of
           [] \<Rightarrow> Num (of_nat (decimalValue whole))
         | c # fraction \<Rightarrow>
             Num (of_nat (decimalValue whole)
                  + of_nat (decimalValue fraction) / 10 ^ length fraction))"

definition parseRgb :: "string \<Rightarrow> ColorError + RedGreenBlueAlpha" where
  "parseRgb color =
     (case RGB_HEX color of
        None \<Rightarrow> Inl (InvalidRGBCode (Str color))
      | Some (c1, c2, c3, c4) \<Rightarrow>
          validateRgb (Number c1) (Number c2) (Number c3) (map_option Number c4))"

definition parseHsl :: "string \<Rightarrow> ColorError + HueSaturationLightnessAlpha" where
  "parseHsl color =
     (case HSL_REGEX color of
        None \<Rightarrow> Inl (InvalidHSLCode (Str color))
      | Some (c1, c2, c3, c4) \<Rightarrow>
          validateHsl (Number c1) (js_div (Number c2) (Num 100)) (js_div (Number c3) (Num 100))
            (map_option Number c4))"

section \<open>The Color class (index)\<close>

text \<open>
  \<open>ColorAttributes\<close> is the intersection of the two component types with the hex code; the
  private fields of a \<open>Color\<close> are the same eight.
\<close>

record ColorAttributes =
  hexCode :: string
  red :: jsnum
  green :: jsnum
  blue :: jsnum
  hue :: jsnum
  saturation :: jsnum
  lightness :: jsnum
  alpha :: jsnum

type_synonym Color = ColorAttributes

definition getAttributesFromHex :: "string \<Rightarrow> ColorError + ColorAttributes" where
  "getAttributesFromHex color =
     (case parseHex color of
        Inl e \<Rightarrow> Inl e
      | Inr hexCodev \<Rightarrow>
          (case hexToRgb hexCodev of
             Inl e \<Rightarrow> Inl e
           | Inr rgb \<Rightarrow>
               (case rgbToHsl (RedGreenBlueAlpha.red rgb) (RedGreenBlueAlpha.green rgb)
                       (RedGreenBlueAlpha.blue rgb) None of
                  Inl e \<Rightarrow> Inl e
                | Inr hsl \<Rightarrow>
                    Inr \<lparr>hexCode = hexCodev,
                          red = RedGreenBlueAlpha.red rgb,
                          green = RedGreenBlueAlpha.green rgb,
                          blue = RedGreenBlueAlpha.blue rgb,
                          hue = HueSaturationLightnessAlpha.hue hsl,
                          saturation = HueSaturationLightnessAlpha.saturation hsl,
                          lightness = HueSaturationLightnessAlpha.lightness hsl,
                          alpha = RedGreenBlueAlpha.alpha rgb\<rparr>)))"

definition getAttributesFromRgb :: "RedGreenBlueAlpha \<Rightarrow> ColorError + ColorAttributes" where
  "getAttributesFromRgb color =
     (let redv = RedGreenBlueAlpha.red color;
          bluev = RedGreenBlueAlpha.blue color;
          greenv = RedGreenBlueAlpha.green color;
          alphav = RedGreenBlueAlpha.alpha color
      in case rgbToHsl redv greenv bluev (Some alphav) of
           Inl e \<Rightarrow> Inl e
         | Inr hsl \<Rightarrow>
             (case rgbToHex redv greenv bluev (Some alphav) of
                Inl e \<Rightarrow> Inl e
              | Inr hexCodev \<Rightarrow>
                  Inr \<lparr>hexCode = hexCodev, red = redv, green = greenv, blue = bluev,
                        hue = HueSaturationLightnessAlpha.hue hsl,
                        saturation = HueSaturationLightnessAlpha.saturation hsl,
                        lightness = HueSaturationLightnessAlpha.lightness hsl,
                        alpha = alphav\<rparr>))"

definition getAttributesFromHsl ::
  "HueSaturationLightnessAlpha \<Rightarrow> ColorError + ColorAttributes" where
  "getAttributesFromHsl color =
     (let huev = HueSaturationLightnessAlpha.hue color;
          saturationv = HueSaturationLightnessAlpha.saturation color;
          lightnessv = HueSaturationLightnessAlpha.lightness color;
          alphav = HueSaturationLightnessAlpha.alpha color
      in case hslToRgb huev saturationv lightnessv None of
           Inl e \<Rightarrow> Inl e
         | Inr rgb \<Rightarrow>
             (case rgbToHex (RedGreenBlueAlpha.red rgb) (RedGreenBlueAlpha.green rgb)
                     (RedGreenBlueAlpha.blue rgb) (Some alphav) of
                Inl e \<Rightarrow> Inl e
              | Inr hexCodev \<Rightarrow>
                  Inr \<lparr>hexCode = hexCodev,
                        red = RedGreenBlueAlpha.red rgb,
                        green = RedGreenBlueAlpha.green rgb,
                        blue = RedGreenBlueAlpha.blue rgb,
                        hue = huev, saturation = saturationv, lightness = lightnessv,
                        alpha = alphav\<rparr>))"

text \<open>\<open>color.includes(part)\<close>: the part occurs somewhere in the string.\<close>

fun includes_str :: "string \<Rightarrow> string \<Rightarrow> bool" where
  "includes_str [] part = (part = [])"
| "includes_str (c # cs) part = (take (length part) (c # cs) = part \<or> includes_str cs part)"

definition getAttributesFromString :: "string \<Rightarrow> ColorError + ColorAttributes" where
  "getAttributesFromString color =
     (if take 1 color = ''#'' then getAttributesFromHex color
      else if includes_str color ''rgb'' then
        (case parseRgb color of Inl e \<Rightarrow> Inl e | Inr rgb \<Rightarrow> getAttributesFromRgb rgb)
      else if includes_str color ''hsl'' then
        (case parseHsl color of Inl e \<Rightarrow> Inl e | Inr hsl \<Rightarrow> getAttributesFromHsl hsl)
      else Inl (InvalidColor (Str color)))"

text \<open>The constructor assigns the eight fields of the new object from the attributes.\<close>

definition new_Color :: "string \<Rightarrow> ColorError + Color" where
  "new_Color color =
     (case getAttributesFromString color of
        Inl e \<Rightarrow> Inl e
      | Inr attributes \<Rightarrow>
          Inr \<lparr>hexCode = hexCode attributes, red = red attributes, green = green attributes,
                blue = blue attributes, hue = hue attributes,
                saturation = saturation attributes, lightness = lightness attributes,
                alpha = alpha attributes\<rparr>)"

text \<open>
  A method of a \<open>Color\<close> runs on the object \<open>this\<close> and either returns or throws; in both
  cases it leaves the object in some state. A method body is a sequence of steps: a step
  that evaluates an expression (and may throw) does not touch the object, an assignment to a
  field changes it, and a throw ends the sequence with the object as it is at that point.
\<close>

type_synonym 'a action = "Color \<Rightarrow> (ColorError + 'a) \<times> Color"

definition evaluate :: "ColorError + 'a \<Rightarrow> 'a action" where
  "evaluate r this = (r, this)"

definition assign :: "(Color \<Rightarrow> Color) \<Rightarrow> unit action" where
  "assign f this = (Inr (), f this)"

definition andThen :: "'a action \<Rightarrow> ('a \<Rightarrow> 'b action) \<Rightarrow> 'b action" where
  "andThen m k this =
     (case m this of
        (Inl e, this') \<Rightarrow> (Inl e, this')
      | (Inr x, this') \<Rightarrow> k x this')"

definition setAttributes :: "ColorAttributes \<Rightarrow> unit action" where
  "setAttributes attributes =
     andThen (assign (\<lambda>this. this\<lparr>hexCode := hexCode attributes\<rparr>)) (\<lambda>_.
     andThen (assign (\<lambda>this. this\<lparr>red := red attributes\<rparr>)) (\<lambda>_.
     andThen (assign (\<lambda>this. this\<lparr>green := green attributes\<rparr>)) (\<lambda>_.
     andThen (assign (\<lambda>this. this\<lparr>blue := blue attributes\<rparr>)) (\<lambda>_.
     andThen (assign (\<lambda>this. this\<lparr>hue := hue attributes\<rparr>)) (\<lambda>_.
     andThen (assign (\<lambda>this. this\<lparr>saturation := saturation attributes\<rparr>)) (\<lambda>_.
     andThen (assign (\<lambda>this. this\<lparr>lightness := lightness attributes\<rparr>)) (\<lambda>_.
     assign (\<lambda>this. this\<lparr>alpha := alpha attributes\<rparr>))))))))"

text \<open>
  The setters of the three RGB channels and of alpha validate the RGB tuple, with the new
  value in its place and the current fields elsewhere; those of hue, saturation and
  lightness validate the HSL tuple. The current fields are read before anything is assigned.
\<close>

definition setFromRgb :: "(Color \<Rightarrow> ColorError + RedGreenBlueAlpha) \<Rightarrow> unit action" where
  "setFromRgb validated this =
     andThen (evaluate (validated this)) (\<lambda>rgb.
     andThen (evaluate (getAttributesFromRgb rgb)) setAttributes) this"

definition setFromHsl ::
  "(Color \<Rightarrow> ColorError + HueSaturationLightnessAlpha) \<Rightarrow> unit action" where
  "setFromHsl validated this =
     andThen (evaluate (validated this)) (\<lambda>hsl.
     andThen (evaluate (getAttributesFromHsl hsl)) setAttributes) this"

definition set_red :: "jsnum \<Rightarrow> unit action" where
  "set_red v = setFromRgb (\<lambda>this. validateRgb v (green this) (blue this) (Some (alpha this)))"

definition set_green :: "jsnum \<Rightarrow> unit action" where
  "set_green v = setFromRgb (\<lambda>this. validateRgb (red this) v (blue this) (Some (alpha this)))"

definition set_blue :: "jsnum \<Rightarrow> unit action" where
  "set_blue v = setFromRgb (\<lambda>this. validateRgb (red this) (green this) v (Some (alpha this)))"

definition set_hue :: "jsnum \<Rightarrow> unit action" where
  "set_hue v =
     setFromHsl (\<lambda>this. validateHsl v (saturation this) (lightness this) (Some (alpha this)))"

definition set_saturation :: "jsnum \<Rightarrow> unit action" where
  "set_saturation v =
     setFromHsl (\<lambda>this. validateHsl (hue this) v (lightness this) (Some (alpha this)))"

definition set_lightness :: "jsnum \<Rightarrow> unit action" where
  "set_lightness v =
     setFromHsl (\<lambda>this. validateHsl (hue this) (saturation this) v (Some (alpha this)))"

definition set_alpha :: "jsnum \<Rightarrow> unit action" where
  "set_alpha v = setFromRgb (\<lambda>this. validateRgb (red this) (green this) (blue this) (Some v))"

text \<open>The seven single-field mutations, by name.\<close>

datatype field = Red | Green | Blue | Hue | Saturation | Lightness | Alpha

fun mutate :: "field \<Rightarrow> jsnum \<Rightarrow> unit action" where
  "mutate Red v = set_red v"
| "mutate Green v = set_green v"
| "mutate Blue v = set_blue v"
| "mutate Hue v = set_hue v"
| "mutate Saturation v = set_saturation v"
| "mutate Lightness v = set_lightness v"
| "mutate Alpha v = set_alpha v"

text \<open>The validation that each mutation starts with.\<close>

fun validation :: "field \<Rightarrow> jsnum \<Rightarrow> Color \<Rightarrow> ColorError option" where
  "validation Red v this =
     (case validateRgb v (green this) (blue this) (Some (alpha this)) of
        Inl e \<Rightarrow> Some e | Inr _ \<Rightarrow> None)"
| "validation Green v this =
     (case validateRgb (red this) v (blue this) (Some (alpha this)) of
        Inl e \<Rightarrow> Some e | Inr _ \<Rightarrow> None)"
| "validation Blue v this =
     (case validateRgb (red this) (green this) v (Some (alpha this)) of
        Inl e \<Rightarrow> Some e | Inr _ \<Rightarrow> None)"
| "validation Hue v this =
     (case validateHsl v (saturation this) (lightness this) (Some (alpha this)) of
        Inl e \<Rightarrow> Some e | Inr _ \<Rightarrow> None)"
| "validation Saturation v this =
     (case validateHsl (hue this) v (lightness this) (Some (alpha this)) of
        Inl e \<Rightarrow> Some e | Inr _ \<Rightarrow> None)"
| "validation Lightness v this =
     (case validateHsl (hue this) (saturation this) v (Some (alpha this)) of
        Inl e \<Rightarrow> Some e | Inr _ \<Rightarrow> None)"
| "validation Alpha v this =
     (case validateRgb (red this) (green this) (blue this) (Some v) of
        Inl e \<Rightarrow> Some e | Inr _ \<Rightarrow> None)"

text \<open>The factories: \<open>Color.white\<close> is a new object, whose attributes are then set.\<close>

definition Color_white :: "ColorError + Color" where
  "Color_white = new_Color ''#FFF''"

definition fromAttributes :: "ColorError + ColorAttributes \<Rightarrow> ColorError + Color" where
  "fromAttributes r =
     (case r of
        Inl e \<Rightarrow> Inl e
      | Inr attributes \<Rightarrow>
          (case Color_white of
             Inl e \<Rightarrow> Inl e
           | Inr color \<Rightarrow>
               (case setAttributes attributes color of
                  (Inl e, _) \<Rightarrow> Inl e
                | (Inr _, color') \<Rightarrow> Inr color')))"

definition Color_rgb :: "jsnum \<Rightarrow> jsnum \<Rightarrow> jsnum \<Rightarrow> jsnum option \<Rightarrow> ColorError + Color" where
  "Color_rgb r g b a =
     (case validateRgb r g b a of
        Inl e \<Rightarrow> Inl e
      | Inr rgb \<Rightarrow> fromAttributes (getAttributesFromRgb rgb))"

definition Color_hsl :: "jsnum \<Rightarrow> jsnum \<Rightarrow> jsnum \<Rightarrow> jsnum option \<Rightarrow> ColorError + Color" where
  "Color_hsl h s l a =
     (case validateHsl h s l a of
        Inl e \<Rightarrow> Inl e
      | Inr hsl \<Rightarrow> fromAttributes (getAttributesFromHsl hsl))"

text \<open>
  The serializers. The conversion of a number to its decimal text is the language's own and
  is a parameter here.
\<close>

definition toHex :: "Color \<Rightarrow> string" where
  "toHex this = hexCode this"

definition toRgb :: "(jsnum \<Rightarrow> string) \<Rightarrow> Color \<Rightarrow> string" where
  "toRgb numberToString this =
     ''rgba('' @ numberToString (red this) @ '', '' @ numberToString (green this) @ '', ''
       @ numberToString (blue this) @ '', '' @ numberToString (alpha this) @ '')''"

definition toHsl :: "(jsnum \<Rightarrow> string) \<Rightarrow> Color \<Rightarrow> string" where
  "toHsl numberToString this =
     ''hlsa('' @ numberToString (hue this) @ '', ''
       @ numberToString (js_mul (saturation this) (Num 100)) @ ''%, ''
       @ numberToString (js_mul (lightness this) (Num 100)) @ ''%, ''
       @ numberToString (alpha this) @ '')''"

section \<open>Notions of the specification\<close>

text \<open>An input form of the hex notation: a \<open>#\<close> and then \<open>n\<close> hexadecimal digits.\<close>

definition hexForm :: "nat \<Rightarrow> string \<Rightarrow> bool" where
  "hexForm n s =
     (case s of
        [] \<Rightarrow> False
      | c # ds \<Rightarrow> c = CHR ''#'' \<and> length ds = n \<and> list_all isHexDigit ds)"

text \<open>
  The round trip of the specification: \<open>hexToRgb\<close>, and then \<open>rgbToHex\<close> on the red, green,
  blue and alpha it returned.
\<close>

definition hexRoundTrip :: "string \<Rightarrow> ColorError + string" where
  "hexRoundTrip s =
     (case hexToRgb s of
        Inl e \<Rightarrow> Inl e
      | Inr rgb \<Rightarrow>
          rgbToHex (RedGreenBlueAlpha.red rgb) (RedGreenBlueAlpha.green rgb)
            (RedGreenBlueAlpha.blue rgb) (Some (RedGreenBlueAlpha.alpha rgb)))"

text \<open>
  The alpha byte of a normalized hex code survives the two-decimal alpha: dividing it by 255,
  rounding to two decimals, multiplying by 255 and rounding gives the byte again.
\<close>

definition alphaSurvives :: "string \<Rightarrow> bool" where
  "alphaSurvives hex =
     (let a = stringToDecimals (charAt hex 7 @ charAt hex 8)
      in Math_round (js_mul (round_js (js_div a (Num 255)) 2) (Num 255)) = a)"

text \<open>The same for the byte itself.\<close>

definition byteSurvives :: "nat \<Rightarrow> bool" where
  "byteSurvives n =
     (Math_round (js_mul (round_js (js_div (Num (real n)) (Num 255)) 2) (Num 255)) = Num (real n))"

text \<open>The digits of a normalized hex code.\<close>

definition isUpperHex :: "char \<Rightarrow> bool" where
  "isUpperHex c = (c \<in> set ''0123456789ABCDEF'')"

text \<open>The two digits that \<open>rgbToHex\<close> writes for one number.\<close>

definition enc :: "jsnum \<Rightarrow> string" where
  "enc x = toUpperCase (padStart2 (toString16 x))"

text \<open>
  The agreement of the representations held by a \<open>Color\<close>: the hex code is what
  \<open>rgbToHex\<close> gives for the stored red, green, blue and alpha; the stored hue, saturation
  and lightness are what \<open>rgbToHsl\<close> gives for the stored red, green and blue; the stored
  red, green and blue are what \<open>hslToRgb\<close> gives for the stored hue, saturation and
  lightness; the stored red, green, blue and alpha are what \<open>hexToRgb\<close> gives for the hex
  code.
\<close>

definition hexAgrees :: "Color \<Rightarrow> bool" where
  "hexAgrees c = (rgbToHex (red c) (green c) (blue c) (Some (alpha c)) = Inr (hexCode c))"

definition hslAgrees :: "Color \<Rightarrow> bool" where
  "hslAgrees c =
     (case rgbToHsl (red c) (green c) (blue c) None of
        Inl e \<Rightarrow> False
      | Inr hsl \<Rightarrow>
          HueSaturationLightnessAlpha.hue hsl = hue c
          \<and> HueSaturationLightnessAlpha.saturation hsl = saturation c
          \<and> HueSaturationLightnessAlpha.lightness hsl = lightness c)"

definition rgbAgrees :: "Color \<Rightarrow> bool" where
  "rgbAgrees c =
     (case hslToRgb (hue c) (saturation c) (lightness c) None of
        Inl e \<Rightarrow> False
      | Inr rgb \<Rightarrow>
          RedGreenBlueAlpha.red rgb = red c \<and> RedGreenBlueAlpha.green rgb = green c
          \<and> RedGreenBlueAlpha.blue rgb = blue c)"

definition hexDecodes :: "Color \<Rightarrow> bool" where
  "hexDecodes c =
     (hexToRgb (hexCode c)
        = Inr \<lparr>RedGreenBlueAlpha.red = red c, green = green c, blue = blue c, alpha = alpha c\<rparr>)"

text \<open>The state of the object that \<open>Color.white\<close> returns.\<close>

definition white :: Color where
  "white = \<lparr>hexCode = ''#FFFFFFFF'', red = Num 255, green = Num 255, blue = Num 255,
            hue = Num 0, saturation = Num 0, lightness = Num 1, alpha = Num 1\<rparr>"

text \<open>The states of the objects that \<open>Color.orange\<close> and \<open>Color.red\<close> return.\<close>

definition orange :: Color where
  "orange = \<lparr>hexCode = ''#FF8000FF'', red = Num 255, green = Num 128, blue = Num 0,
             hue = Num 30, saturation = Num 1, lightness = Num (1 / 2), alpha = Num 1\<rparr>"

definition pure_red :: Color where
  "pure_red = \<lparr>hexCode = ''#FF0000FF'', red = Num 255, green = Num 0, blue = Num 0,
             hue = Num 0, saturation = Num 1, lightness = Num (1 / 2), alpha = Num 1\<rparr>"

text \<open>The defining equations that evaluate the model on a concrete input.\<close>

named_theorems model_defs

lemmas [model_defs] =
  new_Color_def getAttributesFromString_def getAttributesFromHex_def getAttributesFromRgb_def
  getAttributesFromHsl_def parseHex_def HEX_REGEX_def isHexDigit_def toUpperCase_def
  toUpperChar_def charAt_def hexToRgb_def stringToDecimals_def parseInt16_def hexDigitValue_def
  round_js_def rgbToHsl_def rgbToHex_def hslToRgb_def huePrimeToRGB_def validateRgb_def
  validateHsl_def js_gt_def js_ge_def js_sub_def js_eq_def js_trunc_def signed_inf_def
  defaultAlpha_def Math_max_def Math_min_def Let_def padStart2_def hexDigitChar_def
  natToHex.simps parseRgb_def parseHsl_def RGB_HEX_def HSL_REGEX_def lit_def optLit_def
  spaces_def digits13_def alphaText_def alphaTail_def numberComma_def isDigit_def isSpace_def
  Number_def decimalValue_def Color_rgb_def Color_hsl_def fromAttributes_def Color_white_def
  setAttributes_def andThen_def assign_def evaluate_def setFromRgb_def setFromHsl_def
  set_red_def set_green_def set_blue_def set_hue_def set_saturation_def set_lightness_def
  set_alpha_def

section \<open>Rounding\<close>

lemma round_js_Num: "round_js (Num v) d = Num (of_int \<lfloor>v * 10 ^ d + 1 / 2\<rfloor> / 10 ^ d)"
  by (simp add: round_js_def Let_def)

lemma ceiling_half_floor:
  fixes x :: real
  shows "\<lceil>x - 1 / 2\<rceil> = (if frac x = 1 / 2 then \<lfloor>x + 1 / 2\<rfloor> - 1 else \<lfloor>x + 1 / 2\<rfloor>)"
proof (cases "frac x = 1 / 2")
  case True
  then have x: "x = of_int \<lfloor>x\<rfloor> + 1 / 2" by (simp add: frac_def)
  have "\<lceil>x - 1 / 2\<rceil> = \<lfloor>x\<rfloor>" by (subst x) simp
  moreover have "\<lfloor>x + 1 / 2\<rfloor> = \<lfloor>x\<rfloor> + 1" by (subst x) simp
  ultimately show ?thesis using True by simp
next
  case False
  show ?thesis
  proof (cases "frac x < 1 / 2")
    case True
    have "\<lfloor>x + 1 / 2\<rfloor> = \<lfloor>x\<rfloor>" using True by (simp add: frac_def floor_eq_iff) linarith?
    moreover have "\<lceil>x - 1 / 2\<rceil> = \<lfloor>x\<rfloor>" using True by (simp add: frac_def ceiling_eq_iff) linarith?
    ultimately show ?thesis using False by simp
  next
    case f: False
    then have gt: "frac x > 1 / 2" using False by simp
    have lt: "frac x < 1" by (rule frac_lt_1)
    have "\<lfloor>x + 1 / 2\<rfloor> = \<lfloor>x\<rfloor> + 1" using gt lt by (simp add: frac_def floor_eq_iff) linarith?
    moreover have "\<lceil>x - 1 / 2\<rceil> = \<lfloor>x\<rfloor> + 1" using gt lt by (simp add: frac_def ceiling_eq_iff) linarith?
    ultimately show ?thesis using False by simp
  qed
qed

lemma round_half_away_neg:
  assumes "v < 0"
  shows "round_half_away v d = of_int \<lceil>v * 10 ^ d - 1 / 2\<rceil> / 10 ^ d"
proof -
  have "\<bar>v\<bar> * 10 ^ d + 1 / 2 = - (v * 10 ^ d - 1 / 2)" using assms by simp
  then have "\<lfloor>\<bar>v\<bar> * 10 ^ d + 1 / 2\<rfloor> = - \<lceil>v * 10 ^ d - 1 / 2\<rceil>"
    by (simp only: floor_minus)
  then show ?thesis using assms by (simp add: round_half_away_def)
qed

lemma round_half_away_nonneg:
  assumes "0 \<le> v"
  shows "round_half_away v d = of_int \<lfloor>v * 10 ^ d + 1 / 2\<rfloor> / 10 ^ d"
proof (cases "v = 0")
  case True
  then show ?thesis by (simp add: round_half_away_def)
next
  case False
  then have "0 < v" using assms by simp
  then show ?thesis by (simp add: round_half_away_def)
qed

lemma round_js_zero_decimals: "round_js (Num v) 0 = Num (of_int \<lfloor>v + 1 / 2\<rfloor>)"
  by (simp add: round_js_def)

text \<open>
  C10 (as amended). With zero decimals \<open>round\<close> rounds every finite value to the nearest
  integer with a tie going up, towards plus infinity. It agrees with rounding half away from
  zero for every non-negative value and for every negative value that is not a tie; at a
  negative tie it returns the integer above the half-away-from-zero result (for \<open>-0.5\<close> it
  returns zero, not \<open>-1\<close>). The result is integer-valued. Nothing is stated for one or more
  decimals, where the binary rounding of the product decides.
\<close>

theorem round_js_ties_up:
  "(0 \<le> v \<or> frac v \<noteq> 1 / 2 \<longrightarrow> round_js (Num v) 0 = Num (round_half_away v 0))
   \<and> (v < 0 \<and> frac v = 1 / 2 \<longrightarrow> round_js (Num v) 0 = Num (round_half_away v 0 + 1))
   \<and> (\<exists>n. round_js (Num v) 0 = Num (of_int n))"
proof (intro conjI impI)
  assume a: "0 \<le> v \<or> frac v \<noteq> 1 / 2"
  show "round_js (Num v) 0 = Num (round_half_away v 0)"
  proof (cases "0 \<le> v")
    case True
    then show ?thesis
      using round_half_away_nonneg [of v 0] by (simp add: round_js_zero_decimals)
  next
    case False
    then have "v < 0" and "frac v \<noteq> 1 / 2" using a by auto
    then show ?thesis
      using round_half_away_neg [of v 0]
      by (simp add: round_js_zero_decimals ceiling_half_floor)
  qed
next
  assume a: "v < 0 \<and> frac v = 1 / 2"
  then have "real_of_int \<lceil>v - 1 / 2\<rceil> = real_of_int \<lfloor>v + 1 / 2\<rfloor> - 1"
    by (simp add: ceiling_half_floor)
  then have "round_half_away v 0 = real_of_int \<lfloor>v + 1 / 2\<rfloor> - 1"
    using a round_half_away_neg [of v 0] by simp
  then show "round_js (Num v) 0 = Num (round_half_away v 0 + 1)"
    by (simp add: round_js_zero_decimals)
next
  show "\<exists>n. round_js (Num v) 0 = Num (of_int n)"
    by (simp add: round_js_zero_decimals)
qed

theorem round_js_ties_up_witness:
  "round_js (Num (5 / 2)) 0 = Num 3 \<and> round_js (Num (- (5 / 2))) 0 = Num (- 2)
   \<and> round_js (Num (- (126 / 100))) 0 = Num (- 1)"
  using round_js_ties_up [of "5 / 2"] round_js_ties_up [of "- (5 / 2)"]
    round_js_ties_up [of "- (126 / 100)"]
  by (simp add: round_half_away_def frac_def)

theorem round_js_negative_tie:
  "round_js (Num (- (1 / 2))) 0 = Num 0 \<and> round_half_away (- (1 / 2)) 0 = - 1"
  by (simp add: round_js_def round_half_away_def)

section \<open>Validation\<close>

text \<open>
  A provided alpha that is a number outside \<open>0..1\<close> is rejected, and a validator throws no
  other kind of error than its own.
\<close>

lemma out_of_range_truthy:
  assumes "js_lt a (Num 0) \<or> js_gt a (Num 1)"
  shows "truthy a"
  using assms by (cases a) (auto simp add: js_gt_def)

lemma validateRgb_rejects_alpha:
  assumes "js_lt a (Num 0) \<or> js_gt a (Num 1)"
  shows "\<exists>x. validateRgb r g b (Some a) = Inl (InvalidRGBCode x)"
  using assms out_of_range_truthy [OF assms] by (simp add: validateRgb_def Let_def)

lemma validateHsl_rejects_alpha:
  assumes "js_lt a (Num 0) \<or> js_gt a (Num 1)"
  shows "\<exists>x. validateHsl h s l (Some a) = Inl (InvalidHSLCode x)"
  using assms out_of_range_truthy [OF assms] by (simp add: validateHsl_def Let_def)

lemma validateRgb_error_kind:
  "validateRgb r g b a = Inl e \<Longrightarrow> \<exists>x. e = InvalidRGBCode x"
  by (auto simp add: validateRgb_def Let_def split: if_splits)

lemma validateHsl_error_kind:
  "validateHsl h s l a = Inl e \<Longrightarrow> \<exists>x. e = InvalidHSLCode x"
  by (auto simp add: validateHsl_def Let_def split: if_splits)

text \<open>
  C6. A provided alpha that is not a number must be rejected by both validators. The guard
  of the source is \<open>alpha && (isNaN(alpha) || alpha < 0 || alpha > 1)\<close>, and \<open>NaN\<close> is falsy:
  the check is skipped and both validators return a tuple whose alpha is \<open>NaN\<close>.
\<close>

theorem validate_accepts_NaN_alpha:
  "validateRgb (Num 0) (Num 0) (Num 0) (Some NaN)
     = Inr \<lparr>RedGreenBlueAlpha.red = Num 0, green = Num 0, blue = Num 0, alpha = NaN\<rparr>
   \<and> validateHsl (Num 0) (Num 0) (Num 0) (Some NaN)
     = Inr \<lparr>HueSaturationLightnessAlpha.hue = Num 0, saturation = Num 0, lightness = Num 0,
            alpha = NaN\<rparr>"
  by (simp add: validateRgb_def validateHsl_def js_gt_def js_ge_def defaultAlpha_def round_js_def)

section \<open>RGB to HSL\<close>

text \<open>
  C4. The saturation that \<open>rgbToHsl\<close> returns for valid channels is not always within
  \<open>0..1\<close>. The formula divides by \<open>1 - |2 * lightness - 1|\<close> with the lightness already
  rounded to two decimals: for \<open>(1, 0, 0)\<close> the rounded lightness is \<open>0\<close>, the divisor is
  \<open>0\<close> and the saturation is infinite; for \<open>(6, 0, 0)\<close> the saturation is \<open>1.18\<close>.
\<close>

theorem rgbToHsl_saturation_out_of_range:
  "rgbToHsl (Num 1) (Num 0) (Num 0) None
     = Inr \<lparr>HueSaturationLightnessAlpha.hue = Num 0, saturation = PInf, lightness = Num 0,
            alpha = Num 1\<rparr>
   \<and> rgbToHsl (Num 6) (Num 0) (Num 0) None
     = Inr \<lparr>HueSaturationLightnessAlpha.hue = Num 0, saturation = Num (118 / 100),
            lightness = Num (1 / 100), alpha = Num 1\<rparr>"
  by (simp add: rgbToHsl_def validateRgb_def js_gt_def defaultAlpha_def round_js_def Math_max_def
      Math_min_def js_sub_def js_eq_def signed_inf_def js_trunc_def Let_def)

section \<open>Parsing\<close>

text \<open>Each parser has one kind of error.\<close>

lemma parseRgb_error_kind: "parseRgb s = Inl e \<Longrightarrow> \<exists>x. e = InvalidRGBCode x"
  by (auto simp add: parseRgb_def split: option.splits dest: validateRgb_error_kind)

lemma parseHsl_error_kind: "parseHsl s = Inl e \<Longrightarrow> \<exists>x. e = InvalidHSLCode x"
  by (auto simp add: parseHsl_def split: option.splits dest: validateHsl_error_kind)

text \<open>
  C5. For a string that does not match its pattern, \<open>parseRgb\<close> throws the error built by
  \<open>InvalidRGBCode\<close> and \<open>parseHsl\<close> the one built by \<open>InvalidHSLCode\<close>, also when the
  keyword is misspelled: neither throws \<open>InvalidColor\<close>.
\<close>

theorem parse_misspelled_keyword:
  "parseRgb ''rbg(0,0,0)'' = Inl (InvalidRGBCode (Str ''rbg(0,0,0)''))
   \<and> parseHsl ''hls(0,0,0)'' = Inl (InvalidHSLCode (Str ''hls(0,0,0)''))"
  by (simp add: parseRgb_def parseHsl_def RGB_HEX_def HSL_REGEX_def lit_def)

section \<open>The hex notation\<close>

lemma hexForm_length: "hexForm n s \<Longrightarrow> length s = Suc n"
  by (auto simp add: hexForm_def split: list.splits)

lemma HEX_REGEX_forms: "HEX_REGEX s = (hexForm 3 s \<or> hexForm 6 s \<or> hexForm 8 s)"
  by (auto simp add: HEX_REGEX_def hexForm_def split: list.splits)

lemma hexForm3_shape:
  assumes "hexForm 3 s"
  shows "\<exists>r g b. s = [CHR ''#'', r, g, b]"
proof -
  from assms obtain ds where s: "s = CHR ''#'' # ds" and l: "length ds = 3"
    by (auto simp add: hexForm_def split: list.splits)
  from l obtain r g b where "ds = [r, g, b]"
    by (auto simp add: numeral_3_eq_3 length_Suc_conv)
  with s show ?thesis by simp
qed

text \<open>
  C7 (as amended). \<open>parseHex\<close> accepts exactly the forms \<open>#RGB\<close>, \<open>#RRGGBB\<close> and
  \<open>#RRGGBBAA\<close> and fails with \<open>InvalidHexCode\<close> on every other string, the four-digit form
  \<open>#RGBA\<close> included. The three-digit form is expanded by doubling each digit, the three-
  and six-digit forms get the alpha \<open>FF\<close>, and the result is in upper case.
\<close>

theorem parseHex_forms:
  "((\<exists>h. parseHex s = Inr h) \<longleftrightarrow> hexForm 3 s \<or> hexForm 6 s \<or> hexForm 8 s)
   \<and> (\<not> (hexForm 3 s \<or> hexForm 6 s \<or> hexForm 8 s) \<longrightarrow> parseHex s = Inl (InvalidHexCode (Str s)))
   \<and> (hexForm 4 s \<longrightarrow> parseHex s = Inl (InvalidHexCode (Str s)))
   \<and> (hexForm 3 s \<longrightarrow>
        parseHex s = Inr (toUpperCase (''#'' @ concat (map (\<lambda>c. [c, c]) (tl s)) @ ''FF'')))
   \<and> (hexForm 6 s \<longrightarrow> parseHex s = Inr (toUpperCase (s @ ''FF'')))
   \<and> (hexForm 8 s \<longrightarrow> parseHex s = Inr (toUpperCase s))"
proof (intro conjI impI)
  show "(\<exists>h. parseHex s = Inr h) \<longleftrightarrow> hexForm 3 s \<or> hexForm 6 s \<or> hexForm 8 s"
    by (auto simp add: parseHex_def HEX_REGEX_forms Let_def)
next
  assume "\<not> (hexForm 3 s \<or> hexForm 6 s \<or> hexForm 8 s)"
  then show "parseHex s = Inl (InvalidHexCode (Str s))"
    by (simp add: parseHex_def HEX_REGEX_forms)
next
  assume "hexForm 4 s"
  then have "length s = 5" by (simp add: hexForm_length)
  then have "\<not> HEX_REGEX s"
    by (auto simp add: HEX_REGEX_forms dest: hexForm_length)
  then show "parseHex s = Inl (InvalidHexCode (Str s))"
    by (simp add: parseHex_def)
next
  assume a: "hexForm 3 s"
  then obtain r g b where s: "s = [CHR ''#'', r, g, b]"
    using hexForm3_shape by blast
  from a have "HEX_REGEX s" by (simp add: HEX_REGEX_forms)
  then show "parseHex s = Inr (toUpperCase (''#'' @ concat (map (\<lambda>c. [c, c]) (tl s)) @ ''FF''))"
    by (simp add: parseHex_def s charAt_def Let_def)
next
  assume a: "hexForm 6 s"
  then have "HEX_REGEX s" and "length s = 7"
    by (simp_all add: HEX_REGEX_forms hexForm_length)
  then show "parseHex s = Inr (toUpperCase (s @ ''FF''))"
    by (simp add: parseHex_def)
next
  assume a: "hexForm 8 s"
  then have "HEX_REGEX s" and "length s = 9"
    by (simp_all add: HEX_REGEX_forms hexForm_length)
  then show "parseHex s = Inr (toUpperCase s)"
    by (simp add: parseHex_def)
qed

theorem parseHex_forms_witness:
  "parseHex ''#fA0'' = Inr ''#FFAA00FF'' \<and> parseHex ''#c0ffee'' = Inr ''#C0FFEEFF''
   \<and> parseHex ''#c0ffee80'' = Inr ''#C0FFEE80''
   \<and> parseHex ''#fA08'' = Inl (InvalidHexCode (Str ''#fA08''))
   \<and> parseHex ''c0ffee'' = Inl (InvalidHexCode (Str ''c0ffee''))"
  using parseHex_forms [of "''#fA0''"] parseHex_forms [of "''#c0ffee''"]
    parseHex_forms [of "''#c0ffee80''"] parseHex_forms [of "''#fA08''"]
    parseHex_forms [of "''c0ffee''"]
  by (simp add: hexForm_def isHexDigit_def toUpperCase_def toUpperChar_def)

theorem parseHex_rejects_four_digits:
  "parseHex ''#FFFF'' = Inl (InvalidHexCode (Str ''#FFFF''))"
  by (simp add: parseHex_def HEX_REGEX_def)

section \<open>Serializing\<close>

text \<open>
  C8. \<open>toHsl\<close> renders the current hue, saturation, lightness and alpha in the four-argument
  form, but the keyword it writes is \<open>hlsa\<close>, not \<open>hsla\<close>.
\<close>

theorem toHsl_keyword:
  "take 5 (toHsl numberToString this) = ''hlsa('' \<and> take 5 (toHsl numberToString this) \<noteq> ''hsla(''"
  by (simp add: toHsl_def)

section \<open>Mutation\<close>

lemma setAttributes_returns: "fst (setAttributes attributes this) = Inr ()"
  by (simp add: setAttributes_def andThen_def assign_def)

lemma setFromRgb_rejected:
  "validated this = Inl e \<Longrightarrow> setFromRgb validated this = (Inl e, this)"
  by (simp add: setFromRgb_def andThen_def evaluate_def)

lemma setFromHsl_rejected:
  "validated this = Inl e \<Longrightarrow> setFromHsl validated this = (Inl e, this)"
  by (simp add: setFromHsl_def andThen_def evaluate_def)

lemma setFromRgb_error_keeps:
  "fst (setFromRgb validated this) = Inl e \<Longrightarrow> snd (setFromRgb validated this) = this"
  using setAttributes_returns
  by (auto simp add: setFromRgb_def andThen_def evaluate_def split: sum.splits prod.splits)

lemma setFromHsl_error_keeps:
  "fst (setFromHsl validated this) = Inl e \<Longrightarrow> snd (setFromHsl validated this) = this"
  using setAttributes_returns
  by (auto simp add: setFromHsl_def andThen_def evaluate_def split: sum.splits prod.splits)

text \<open>
  C3. A single-field mutation whose new value fails the validation against the current
  values of the other fields throws the validation's error and leaves every field of the
  object as it was. More generally, whenever a mutation throws, also after a validation
  that passed, the object is unchanged.
\<close>

theorem mutation_rejected_keeps_state:
  "(validation f v this = Some e \<longrightarrow> mutate f v this = (Inl e, this))
   \<and> (fst (mutate f v this) = Inl e' \<longrightarrow> snd (mutate f v this) = this)"
proof (intro conjI impI)
  assume "validation f v this = Some e"
  then show "mutate f v this = (Inl e, this)"
    by (cases f)
      (auto simp add: set_red_def set_green_def set_blue_def set_alpha_def set_hue_def
        set_saturation_def set_lightness_def
        intro!: setFromRgb_rejected setFromHsl_rejected split: sum.splits)
next
  assume "fst (mutate f v this) = Inl e'"
  then show "snd (mutate f v this) = this"
    by (cases f)
      (auto simp add: set_red_def set_green_def set_blue_def set_alpha_def set_hue_def
        set_saturation_def set_lightness_def
        dest: setFromRgb_error_keeps setFromHsl_error_keeps)
qed

lemma Color_white_eq: "Color_white = Inr white"
  by (simp add: Color_white_def new_Color_def getAttributesFromString_def getAttributesFromHex_def
      parseHex_def HEX_REGEX_def isHexDigit_def toUpperCase_def toUpperChar_def charAt_def
      hexToRgb_def stringToDecimals_def parseInt16_def hexDigitValue_def round_js_def
      rgbToHsl_def validateRgb_def js_gt_def defaultAlpha_def Math_max_def Math_min_def
      js_sub_def js_eq_def Let_def white_def)

theorem mutation_rejected_keeps_state_witness:
  "validation Red (Num 256) white = Some (InvalidRGBCode (RgbaString (Num 256) (Num 255) (Num 255) (Num 1)))
   \<and> mutate Red (Num 256) white = (Inl (InvalidRGBCode (RgbaString (Num 256) (Num 255) (Num 255) (Num 1))), white)
   \<and> snd (mutate Red (Num 256) white) = white"
  using mutation_rejected_keeps_state [of Red "Num 256" white
      "InvalidRGBCode (RgbaString (Num 256) (Num 255) (Num 255) (Num 1))"
      "InvalidRGBCode (RgbaString (Num 256) (Num 255) (Num 255) (Num 1))"]
  by (simp add: white_def validateRgb_def js_gt_def)

section \<open>Bytes and their two hexadecimal digits\<close>

lemma upper_of_hex_all:
  "list_all (\<lambda>c. isUpperHex (toUpperChar c)) ''0123456789abcdefABCDEF''"
  by (simp add: isUpperHex_def toUpperChar_def)

lemma upper_of_hex: "isHexDigit c \<Longrightarrow> isUpperHex (toUpperChar c)"
  using upper_of_hex_all unfolding list_all_iff isHexDigit_def by blast

lemma upperHex_facts_all:
  "list_all (\<lambda>c. isHexDigit c \<and> hexDigitValue c < 16
                  \<and> toUpperChar (hexDigitChar (hexDigitValue c)) = c \<and> toUpperChar c = c)
     ''0123456789ABCDEF''"
  by (simp add: isHexDigit_def toUpperChar_def hexDigitValue_def hexDigitChar_def)

lemma upperHex_facts:
  assumes "isUpperHex c"
  shows "isHexDigit c" and "hexDigitValue c < 16"
    and "toUpperChar (hexDigitChar (hexDigitValue c)) = c" and "toUpperChar c = c"
  using assms upperHex_facts_all unfolding list_all_iff isUpperHex_def by blast+

lemma upt16: "[0 ..< 16] = [0, 1, 2, 3, 4, 5, 6, 7, 8, 9, 10, 11, 12, 13, 14, 15::nat]"
  by (simp add: upt_rec)

lemma hexDigit_decode_all:
  "list_all (\<lambda>v. hexDigitValue (toUpperChar (hexDigitChar v)) = v
                  \<and> isUpperHex (toUpperChar (hexDigitChar v))) [0 ..< 16]"
  unfolding upt16
  by (simp add: isUpperHex_def toUpperChar_def hexDigitValue_def hexDigitChar_def)

lemma hexDigit_decode:
  assumes "v < 16"
  shows "hexDigitValue (toUpperChar (hexDigitChar v)) = v"
    and "isUpperHex (toUpperChar (hexDigitChar v))"
proof -
  from assms have "v \<in> set [0 ..< 16]" by simp
  with hexDigit_decode_all show "hexDigitValue (toUpperChar (hexDigitChar v)) = v"
    and "isUpperHex (toUpperChar (hexDigitChar v))"
    unfolding list_all_iff by blast+
qed

lemma parseInt16_pair:
  assumes "isUpperHex c" and "isUpperHex d"
  shows "parseInt16 [c, d] = Num (real (16 * hexDigitValue c + hexDigitValue d))"
  using assms by (simp add: parseInt16_def upperHex_facts(1))

lemma natToHex_byte:
  assumes "n < 256"
  shows "padStart2 (natToHex n) = [hexDigitChar (n div 16), hexDigitChar n]"
proof (cases "n < 16")
  case True
  then have "natToHex n = [hexDigitChar n]" by (simp add: natToHex.simps)
  with True show ?thesis by (simp add: padStart2_def hexDigitChar_def)
next
  case False
  from assms have "n div 16 < 16" by simp
  then have "natToHex (n div 16) = [hexDigitChar (n div 16)]" by (simp add: natToHex.simps)
  with False have "natToHex n = [hexDigitChar (n div 16), hexDigitChar n]"
    by (subst natToHex.simps) simp
  then show ?thesis by (simp add: padStart2_def)
qed

lemma Math_round_nat: "Math_round (Num (real n)) = Num (real n)"
proof -
  have "\<lfloor>real n + 1 / 2\<rfloor> = int n" by (simp add: floor_eq_iff)
  then show ?thesis by simp
qed

lemma toString16_nat: "toString16 (Num (real n)) = natToHex n"
  by simp

lemma encode_byte:
  assumes "n < 256"
  shows "toUpperCase (padStart2 (toString16 (Num (real n))))
         = [toUpperChar (hexDigitChar (n div 16)), toUpperChar (hexDigitChar n)]"
  using assms by (simp add: toString16_nat natToHex_byte toUpperCase_def del: toString16.simps)

lemma hexDigitChar_mod: "hexDigitChar (16 * a + b) = hexDigitChar b"
  by (simp add: hexDigitChar_def)

lemma encode_pair:
  assumes "isUpperHex c" and "isUpperHex d"
  shows "toUpperCase (padStart2 (toString16 (Num (real (16 * hexDigitValue c + hexDigitValue d)))))
         = [c, d]"
proof -
  from assms have c: "hexDigitValue c < 16" and d: "hexDigitValue d < 16"
    by (simp_all add: upperHex_facts(2))
  then have lt: "16 * hexDigitValue c + hexDigitValue d < 256" by simp
  have dv: "(16 * hexDigitValue c + hexDigitValue d) div 16 = hexDigitValue c"
    using d by simp
  show ?thesis
    using assms by (simp only: encode_byte [OF lt] dv hexDigitChar_mod upperHex_facts(3))
qed

lemma decode_byte:
  assumes "n < 256"
  shows "parseInt16 (toUpperCase (padStart2 (toString16 (Num (real n))))) = Num (real n)"
proof -
  from assms have hi: "n div 16 < 16" by simp
  have lo: "n mod 16 < 16" by simp
  have m: "hexDigitChar n = hexDigitChar (n mod 16)" by (simp add: hexDigitChar_def)
  have "parseInt16 [toUpperChar (hexDigitChar (n div 16)), toUpperChar (hexDigitChar (n mod 16))]
        = Num (real (16 * (n div 16) + n mod 16))"
    by (simp only: parseInt16_pair [OF hexDigit_decode(2) [OF hi] hexDigit_decode(2) [OF lo]]
        hexDigit_decode(1) [OF hi] hexDigit_decode(1) [OF lo])
  moreover have "16 * (n div 16) + n mod 16 = n" by (rule mult_div_mod_eq)
  ultimately have "parseInt16 [toUpperChar (hexDigitChar (n div 16)), toUpperChar (hexDigitChar (n mod 16))]
        = Num (real n)" by (simp only:)
  then show ?thesis by (subst encode_byte [OF assms], subst m)
qed

section \<open>Validated channels\<close>

lemma setAttributes_result: "setAttributes attributes this = (Inr (), attributes)"
  by (simp add: setAttributes_def andThen_def assign_def)

lemma Math_round_byte:
  assumes "0 \<le> r" and "r \<le> 255"
  shows "\<exists>n<256. Math_round (Num r) = Num (real n)"
proof -
  have lo: "0 \<le> \<lfloor>r + 1 / 2\<rfloor>" using assms by simp
  have hi: "\<lfloor>r + 1 / 2\<rfloor> \<le> 255" using assms by (simp add: floor_le_iff)
  have "real (nat \<lfloor>r + 1 / 2\<rfloor>) = of_int \<lfloor>r + 1 / 2\<rfloor>" using lo by simp
  moreover have "nat \<lfloor>r + 1 / 2\<rfloor> < 256" using hi lo by arith
  ultimately show ?thesis by (intro exI [of _ "nat \<lfloor>r + 1 / 2\<rfloor>"]) simp
qed

lemma validateRgb_in_range:
  assumes "0 \<le> r" "r \<le> 255" "0 \<le> g" "g \<le> 255" "0 \<le> b" "b \<le> 255" "0 \<le> q" "q \<le> 1"
  shows "validateRgb (Num r) (Num g) (Num b) (Some (Num q))
         = Inr \<lparr>RedGreenBlueAlpha.red = Math_round (Num r), green = Math_round (Num g),
                blue = Math_round (Num b), alpha = round_js (Num q) 2\<rparr>"
  using assms by (simp add: validateRgb_def js_gt_def defaultAlpha_def Let_def not_less)

lemma validateRgb_bytes:
  assumes "r < 256" "g < 256" "b < 256" "0 \<le> q" "q \<le> 1"
  shows "validateRgb (Num (real r)) (Num (real g)) (Num (real b)) (Some (Num q))
         = Inr \<lparr>RedGreenBlueAlpha.red = Num (real r), green = Num (real g),
                blue = Num (real b), alpha = round_js (Num q) 2\<rparr>"
proof -
  from assms have "real r \<le> 255" "real g \<le> 255" "real b \<le> 255" by simp_all
  then show ?thesis
    using assms validateRgb_in_range [of "real r" "real g" "real b" q]
    by (simp only: Math_round_nat of_nat_0_le_iff)
qed

lemma rgbToHex_bytes:
  assumes "r < 256" "g < 256" "b < 256" "0 \<le> q" "q \<le> 1"
  shows "rgbToHex (Num (real r)) (Num (real g)) (Num (real b)) (Some (Num q))
         = Inr (''#'' @ enc (Num (real r)) @ enc (Num (real g)) @ enc (Num (real b))
                @ enc (Math_round (js_mul (round_js (Num q) 2) (Num 255))))"
proof -
  have v: "validateRgb (Num (real r)) (Num (real g)) (Num (real b)) (Some (Num q))
         = Inr \<lparr>RedGreenBlueAlpha.red = Num (real r), green = Num (real g),
                blue = Num (real b), alpha = round_js (Num q) 2\<rparr>"
    using validateRgb_bytes [OF assms] .
  show ?thesis
    by (simp add: rgbToHex_def v enc_def toUpperCase_def del: toString16.simps Math_round.simps)
qed

lemma enc_length: "n < 256 \<Longrightarrow> length (enc (Num (real n))) = 2"
  by (simp only: enc_def encode_byte) simp

lemma rgbToHsl_returns:
  "validateRgb r g b a = Inr rgb \<Longrightarrow> \<exists>hsl. rgbToHsl r g b a = Inr hsl"
  by (simp add: rgbToHsl_def Let_def)

lemma fromAttributes_Inr: "fromAttributes (Inr attributes) = Inr attributes"
  by (simp add: fromAttributes_def Color_white_eq setAttributes_result)

lemma round_js_zero: "round_js (Num 0) 2 = Num 0"
  by (simp add: round_js_def)

lemma enc_zero: "enc (Num 0) = ''00''"
  using encode_byte [of 0]
  by (simp add: enc_def hexDigitChar_def toUpperChar_def del: toString16.simps)

lemma Color_rgb_transparent:
  assumes "0 \<le> r" "r \<le> 255" "0 \<le> g" "g \<le> 255" "0 \<le> b" "b \<le> 255"
  shows "\<exists>c. Color_rgb (Num r) (Num g) (Num b) (Some (Num 0)) = Inr c \<and> alpha c = Num 0
             \<and> drop 7 (toHex c) = ''00''"
proof -
  obtain nr where nr: "nr < 256" "Math_round (Num r) = Num (real nr)"
    using Math_round_byte [OF assms(1,2)] by blast
  obtain ng where ng: "ng < 256" "Math_round (Num g) = Num (real ng)"
    using Math_round_byte [OF assms(3,4)] by blast
  obtain nb where nb: "nb < 256" "Math_round (Num b) = Num (real nb)"
    using Math_round_byte [OF assms(5,6)] by blast
  let ?rgb = "\<lparr>RedGreenBlueAlpha.red = Num (real nr), green = Num (real ng),
               blue = Num (real nb), alpha = Num 0\<rparr>"
  have v: "validateRgb (Num r) (Num g) (Num b) (Some (Num 0)) = Inr ?rgb"
    using validateRgb_in_range [OF assms, of 0] by (simp only: nr ng nb round_js_zero)
  have v': "validateRgb (Num (real nr)) (Num (real ng)) (Num (real nb)) (Some (Num 0)) = Inr ?rgb"
    using validateRgb_bytes [OF nr(1) ng(1) nb(1), of 0] by (simp add: round_js_zero)
  obtain hsl where hsl: "rgbToHsl (Num (real nr)) (Num (real ng)) (Num (real nb)) (Some (Num 0)) = Inr hsl"
    using rgbToHsl_returns [OF v'] by blast
  have hex: "rgbToHex (Num (real nr)) (Num (real ng)) (Num (real nb)) (Some (Num 0))
             = Inr (''#'' @ enc (Num (real nr)) @ enc (Num (real ng)) @ enc (Num (real nb)) @ ''00'')"
    using rgbToHex_bytes [OF nr(1) ng(1) nb(1), of 0] by (simp add: round_js_zero enc_zero)
  let ?c = "\<lparr>hexCode = ''#'' @ enc (Num (real nr)) @ enc (Num (real ng)) @ enc (Num (real nb)) @ ''00'',
             red = Num (real nr), green = Num (real ng), blue = Num (real nb),
             hue = HueSaturationLightnessAlpha.hue hsl,
             saturation = HueSaturationLightnessAlpha.saturation hsl,
             lightness = HueSaturationLightnessAlpha.lightness hsl, alpha = Num 0\<rparr>"
  have "getAttributesFromRgb ?rgb = Inr ?c"
    by (simp add: getAttributesFromRgb_def hsl hex Let_def)
  then have "Color_rgb (Num r) (Num g) (Num b) (Some (Num 0)) = Inr ?c"
    by (simp add: Color_rgb_def v fromAttributes_Inr)
  moreover have "drop 7 (toHex ?c) = ''00''"
    using enc_length [OF nr(1)] enc_length [OF ng(1)] enc_length [OF nb(1)]
    by (simp add: toHex_def)
  ultimately show ?thesis by (intro exI [of _ ?c]) simp
qed

text \<open>
  C9. \<open>defaultAlpha\<close> returns the alpha rounded to two decimals whenever one is provided, a
  provided \<open>0\<close> included, and \<open>1\<close> when it is omitted. Hence \<open>Color.rgb(r, g, b, 0)\<close>, for
  channels within \<open>0..255\<close>, is a color whose alpha is \<open>0\<close> and whose hex code ends in \<open>00\<close>.
\<close>

theorem defaultAlpha_zero_is_provided:
  "defaultAlpha (Some a) = round_js a 2 \<and> defaultAlpha (Some (Num 0)) = Num 0
   \<and> defaultAlpha None = Num 1
   \<and> (0 \<le> r \<and> r \<le> 255 \<and> 0 \<le> g \<and> g \<le> 255 \<and> 0 \<le> b \<and> b \<le> 255 \<longrightarrow>
        (\<exists>c. Color_rgb (Num r) (Num g) (Num b) (Some (Num 0)) = Inr c \<and> alpha c = Num 0
             \<and> drop 7 (toHex c) = ''00''))"
  using Color_rgb_transparent [of r g b] by (simp add: defaultAlpha_def round_js_zero)

theorem defaultAlpha_zero_is_provided_witness:
  "defaultAlpha (Some (Num (1 / 3))) = Num (33 / 100) \<and> defaultAlpha (Some (Num 0)) = Num 0
   \<and> defaultAlpha None = Num 1
   \<and> (\<exists>c. Color_rgb (Num 255) (Num 0) (Num (1 / 2)) (Some (Num 0)) = Inr c \<and> alpha c = Num 0
           \<and> drop 7 (toHex c) = ''00'')"
  using defaultAlpha_zero_is_provided [of "Num (1 / 3)" 255 0 "1 / 2"]
  by (simp add: round_js_def)

section \<open>The round trip of the hex notation\<close>

lemma alpha_chain:
  assumes "n < 256"
  shows "\<exists>q K. round_js (js_div (Num (real n)) (Num 255)) 2 = Num q \<and> 0 \<le> q \<and> q \<le> 1
           \<and> round_js (Num q) 2 = Num q \<and> K < 256
           \<and> Math_round (js_mul (Num q) (Num 255)) = Num (real K)"
proof -
  define k where "k = \<lfloor>real n / 255 * 100 + 1 / 2\<rfloor>"
  define q where "q = real_of_int k / 100"
  have k0: "0 \<le> k" unfolding k_def by simp
  have "real n / 255 * 100 + 1 / 2 < 101" using assms by simp
  then have k100: "k \<le> 100" unfolding k_def by (simp add: floor_le_iff)
  have q0: "0 \<le> q" and q1: "q \<le> 1" using k0 k100 by (simp_all add: q_def)
  have a: "round_js (js_div (Num (real n)) (Num 255)) 2 = Num q"
    by (simp add: round_js_Num q_def k_def)
  have "q * 10 ^ 2 = real_of_int k" by (simp add: q_def)
  then have "\<lfloor>q * 10 ^ 2 + 1 / 2\<rfloor> = k" by (simp add: floor_eq_iff)
  then have idem: "round_js (Num q) 2 = Num q"
    by (simp only: round_js_Num q_def) simp
  define K where "K = nat \<lfloor>q * 255 + 1 / 2\<rfloor>"
  have f0: "0 \<le> \<lfloor>q * 255 + 1 / 2\<rfloor>" using q0 by simp
  have "q * 255 + 1 / 2 < 256" using q1 by simp
  then have f1: "\<lfloor>q * 255 + 1 / 2\<rfloor> \<le> 255" by (simp add: floor_le_iff)
  have K: "K < 256" using f0 f1 unfolding K_def by arith
  have "real K = real_of_int \<lfloor>q * 255 + 1 / 2\<rfloor>" using f0 by (simp add: K_def)
  then have "Math_round (js_mul (Num q) (Num 255)) = Num (real K)" by simp
  with a q0 q1 idem K show ?thesis by blast
qed

lemma length8:
  assumes "length ds = 8"
  shows "\<exists>a b c d e f g h. ds = [a, b, c, d, e, f, g, h]"
  using assms by (auto simp add: eval_nat_numeral length_Suc_conv)

lemma length6:
  assumes "length ds = 6"
  shows "\<exists>a b c d e f. ds = [a, b, c, d, e, f]"
  using assms by (auto simp add: eval_nat_numeral length_Suc_conv)

lemma F_upper: "isUpperHex CHR ''F''"
  by (simp add: isUpperHex_def)

lemma parseHex_normal:
  assumes "parseHex H = Inr N"
  shows "\<exists>c1 c2 c3 c4 c5 c6 c7 c8.
           N = [CHR ''#'', c1, c2, c3, c4, c5, c6, c7, c8]
           \<and> isUpperHex c1 \<and> isUpperHex c2 \<and> isUpperHex c3 \<and> isUpperHex c4
           \<and> isUpperHex c5 \<and> isUpperHex c6 \<and> isUpperHex c7 \<and> isUpperHex c8
           \<and> (length H \<noteq> 9 \<longrightarrow> c7 = CHR ''F'' \<and> c8 = CHR ''F'')"
proof -
  from assms have re: "HEX_REGEX H"
    by (auto simp add: parseHex_def split: if_splits)
  then consider (three) "hexForm 3 H" | (six) "hexForm 6 H" | (eight) "hexForm 8 H"
    by (auto simp add: HEX_REGEX_forms)
  then show ?thesis
  proof cases
    case three
    then obtain r g b where H: "H = [CHR ''#'', r, g, b]" using hexForm3_shape by blast
    with three have d: "isHexDigit r" "isHexDigit g" "isHexDigit b"
      by (simp_all add: hexForm_def)
    have "N = [CHR ''#'', toUpperChar r, toUpperChar r, toUpperChar g, toUpperChar g,
               toUpperChar b, toUpperChar b, CHR ''F'', CHR ''F'']"
      using assms re by (simp add: parseHex_def H charAt_def toUpperCase_def toUpperChar_def)
    then show ?thesis using d upper_of_hex F_upper by (simp add: H)
  next
    case six
    then obtain ds where H: "H = CHR ''#'' # ds" and l: "length ds = 6"
      and d: "list_all isHexDigit ds"
      by (auto simp add: hexForm_def split: list.splits)
    from l obtain a b c d' e f where ds: "ds = [a, b, c, d', e, f]" using length6 by blast
    have "N = [CHR ''#'', toUpperChar a, toUpperChar b, toUpperChar c, toUpperChar d',
               toUpperChar e, toUpperChar f, CHR ''F'', CHR ''F'']"
      using assms re by (simp add: parseHex_def H ds toUpperCase_def toUpperChar_def)
    then show ?thesis using d upper_of_hex F_upper by (simp add: H ds)
  next
    case eight
    then obtain ds where H: "H = CHR ''#'' # ds" and l: "length ds = 8"
      and d: "list_all isHexDigit ds"
      by (auto simp add: hexForm_def split: list.splits)
    from l obtain a b c d' e f g h where ds: "ds = [a, b, c, d', e, f, g, h]"
      using length8 by blast
    have "N = [CHR ''#'', toUpperChar a, toUpperChar b, toUpperChar c, toUpperChar d',
               toUpperChar e, toUpperChar f, toUpperChar g, toUpperChar h]"
      using assms re by (simp add: parseHex_def H ds toUpperCase_def toUpperChar_def)
    then show ?thesis using d upper_of_hex by (simp add: H ds)
  qed
qed

lemma roundTrip_normal:
  assumes N: "N = [CHR ''#'', c1, c2, c3, c4, c5, c6, c7, c8]"
    and u: "isUpperHex c1" "isUpperHex c2" "isUpperHex c3" "isUpperHex c4"
           "isUpperHex c5" "isUpperHex c6" "isUpperHex c7" "isUpperHex c8"
    and p: "parseHex H = Inr N"
  shows "\<exists>K. K < 256 \<and> hexRoundTrip H = Inr ([CHR ''#'', c1, c2, c3, c4, c5, c6] @ enc (Num (real K)))
             \<and> (alphaSurvives N \<longleftrightarrow> K = 16 * hexDigitValue c7 + hexDigitValue c8)"
proof -
  define n1 where "n1 = 16 * hexDigitValue c1 + hexDigitValue c2"
  define n2 where "n2 = 16 * hexDigitValue c3 + hexDigitValue c4"
  define n3 where "n3 = 16 * hexDigitValue c5 + hexDigitValue c6"
  define n4 where "n4 = 16 * hexDigitValue c7 + hexDigitValue c8"
  have lt: "n1 < 256" "n2 < 256" "n3 < 256" "n4 < 256"
    using u upperHex_facts(2) [of c1] upperHex_facts(2) [of c2] upperHex_facts(2) [of c3]
      upperHex_facts(2) [of c4] upperHex_facts(2) [of c5] upperHex_facts(2) [of c6]
      upperHex_facts(2) [of c7] upperHex_facts(2) [of c8]
    by (simp_all add: n1_def n2_def n3_def n4_def)
  have pi: "parseInt16 [c1, c2] = Num (real n1)" "parseInt16 [c3, c4] = Num (real n2)"
    "parseInt16 [c5, c6] = Num (real n3)" "parseInt16 [c7, c8] = Num (real n4)"
    using u by (simp_all only: parseInt16_pair n1_def n2_def n3_def n4_def)
  obtain q K where a: "round_js (js_div (Num (real n4)) (Num 255)) 2 = Num q"
    and q: "0 \<le> q" "q \<le> 1" and idem: "round_js (Num q) 2 = Num q" and K: "K < 256"
    and mr: "Math_round (js_mul (Num q) (Num 255)) = Num (real K)"
    using alpha_chain [OF lt(4)] by blast
  have h: "hexToRgb H = Inr \<lparr>RedGreenBlueAlpha.red = Num (real n1), green = Num (real n2),
                            blue = Num (real n3), alpha = Num q\<rparr>"
    by (simp add: hexToRgb_def p N charAt_def stringToDecimals_def pi a
        del: js_div.simps)
  have e: "enc (Num (real n1)) = [c1, c2]" "enc (Num (real n2)) = [c3, c4]"
    "enc (Num (real n3)) = [c5, c6]"
    using u by (simp_all only: enc_def encode_pair n1_def n2_def n3_def)
  have "hexRoundTrip H = Inr (''#'' @ enc (Num (real n1)) @ enc (Num (real n2)) @ enc (Num (real n3))
                              @ enc (Math_round (js_mul (round_js (Num q) 2) (Num 255))))"
    using rgbToHex_bytes [OF lt(1-3) q] by (simp add: hexRoundTrip_def h)
  then have rt: "hexRoundTrip H = Inr ([CHR ''#'', c1, c2, c3, c4, c5, c6] @ enc (Num (real K)))"
    by (simp only: idem mr e) simp
  have "alphaSurvives N \<longleftrightarrow> Num (real K) = Num (real n4)"
    by (simp add: alphaSurvives_def N charAt_def stringToDecimals_def pi a mr
        del: js_div.simps js_mul.simps Math_round.simps)
  then have "alphaSurvives N \<longleftrightarrow> K = n4" by simp
  with K rt show ?thesis unfolding n4_def by blast
qed

lemma enc_injective:
  assumes "K < 256" and "isUpperHex c" and "isUpperHex d"
  shows "enc (Num (real K)) = [c, d] \<longleftrightarrow> K = 16 * hexDigitValue c + hexDigitValue d"
proof
  assume "enc (Num (real K)) = [c, d]"
  then have "parseInt16 (enc (Num (real K))) = parseInt16 [c, d]" by simp
  then have "Num (real K) = Num (real (16 * hexDigitValue c + hexDigitValue d))"
    using assms by (simp only: enc_def decode_byte parseInt16_pair)
  then show "K = 16 * hexDigitValue c + hexDigitValue d" by simp
next
  assume "K = 16 * hexDigitValue c + hexDigitValue d"
  then show "enc (Num (real K)) = [c, d]"
    using assms by (simp only: enc_def encode_pair)
qed

lemma alphaSurvives_FF:
  "alphaSurvives [CHR ''#'', c1, c2, c3, c4, c5, c6, CHR ''F'', CHR ''F'']"
  by (simp add: alphaSurvives_def charAt_def stringToDecimals_def parseInt16_def isHexDigit_def
      hexDigitValue_def round_js_def)

lemma roundTrip_iff:
  assumes "parseHex H = Inr N"
  shows "(hexRoundTrip H = Inr N \<longleftrightarrow> alphaSurvives N) \<and> (length H \<noteq> 9 \<longrightarrow> alphaSurvives N)"
proof -
  obtain c1 c2 c3 c4 c5 c6 c7 c8 where N: "N = [CHR ''#'', c1, c2, c3, c4, c5, c6, c7, c8]"
    and u: "isUpperHex c1" "isUpperHex c2" "isUpperHex c3" "isUpperHex c4"
           "isUpperHex c5" "isUpperHex c6" "isUpperHex c7" "isUpperHex c8"
    and short: "length H \<noteq> 9 \<longrightarrow> c7 = CHR ''F'' \<and> c8 = CHR ''F''"
    using parseHex_normal [OF assms] by blast
  obtain K where K: "K < 256"
    and rt: "hexRoundTrip H = Inr ([CHR ''#'', c1, c2, c3, c4, c5, c6] @ enc (Num (real K)))"
    and s: "alphaSurvives N \<longleftrightarrow> K = 16 * hexDigitValue c7 + hexDigitValue c8"
    using roundTrip_normal [OF N u assms] by blast
  have "hexRoundTrip H = Inr N \<longleftrightarrow> enc (Num (real K)) = [c7, c8]"
    by (simp add: rt N)
  then have "hexRoundTrip H = Inr N \<longleftrightarrow> alphaSurvives N"
    using enc_injective [OF K u(7,8)] s by simp
  moreover have "length H \<noteq> 9 \<longrightarrow> alphaSurvives N"
    using short alphaSurvives_FF by (auto simp add: N)
  ultimately show ?thesis by simp
qed

lemma roundTrip_digits:
  assumes "parseHex H = Inr N"
  shows "\<exists>R. hexRoundTrip H = Inr R \<and> length R = 9 \<and> take 7 R = take 7 N"
proof -
  obtain c1 c2 c3 c4 c5 c6 c7 c8 where N: "N = [CHR ''#'', c1, c2, c3, c4, c5, c6, c7, c8]"
    and u: "isUpperHex c1" "isUpperHex c2" "isUpperHex c3" "isUpperHex c4"
           "isUpperHex c5" "isUpperHex c6" "isUpperHex c7" "isUpperHex c8"
    using parseHex_normal [OF assms] by blast
  obtain K where K: "K < 256"
    and rt: "hexRoundTrip H = Inr ([CHR ''#'', c1, c2, c3, c4, c5, c6] @ enc (Num (real K)))"
    using roundTrip_normal [OF N u assms] by blast
  show ?thesis
    using enc_length [OF K] by (simp add: rt N)
qed

lemma alpha_byte:
  assumes "parseHex H = Inr N"
  shows "\<exists>n<256. stringToDecimals (charAt N 7 @ charAt N 8) = Num (real n)
           \<and> (alphaSurvives N \<longleftrightarrow> byteSurvives n)"
proof -
  obtain c1 c2 c3 c4 c5 c6 c7 c8 where N: "N = [CHR ''#'', c1, c2, c3, c4, c5, c6, c7, c8]"
    and u: "isUpperHex c7" "isUpperHex c8"
    using parseHex_normal [OF assms] by blast
  define n where "n = 16 * hexDigitValue c7 + hexDigitValue c8"
  have lt: "n < 256"
    using upperHex_facts(2) [OF u(1)] upperHex_facts(2) [OF u(2)] by (simp add: n_def)
  have d: "stringToDecimals (charAt N 7 @ charAt N 8) = Num (real n)"
    using parseInt16_pair [OF u] by (simp add: N charAt_def stringToDecimals_def n_def)
  have "alphaSurvives N \<longleftrightarrow> byteSurvives n"
    by (simp only: alphaSurvives_def byteSurvives_def d Let_def)
  with lt d show ?thesis by blast
qed

lemma surviving_bytes: "length (filter byteSurvives [0 ..< 256]) = 101"
  by (simp add: upt_rec byteSurvives_def round_js_def)

text \<open>
  C1 (as amended). For every hex string that \<open>parseHex\<close> accepts, \<open>hexToRgb\<close> followed by
  \<open>rgbToHex\<close> returns a hex code of nine characters whose first seven, the \<open>#\<close> and the red,
  green and blue digits, are those of the normalized string. It returns the normalized string
  itself exactly when the alpha byte of the normalized string survives the two-decimal
  alpha. That is so for every three- and six-digit input, whose alpha is \<open>FF\<close>, in both
  letter cases, and for 101 of the 256 values of the alpha byte.
\<close>

theorem hex_round_trip:
  assumes "parseHex H = Inr N"
  shows "(\<exists>R. hexRoundTrip H = Inr R \<and> length R = 9 \<and> take 7 R = take 7 N)
         \<and> (hexRoundTrip H = Inr N \<longleftrightarrow> alphaSurvives N)
         \<and> (length H \<noteq> 9 \<longrightarrow> alphaSurvives N)
         \<and> (\<exists>n<256. stringToDecimals (charAt N 7 @ charAt N 8) = Num (real n)
                    \<and> (alphaSurvives N \<longleftrightarrow> byteSurvives n))
         \<and> length (filter byteSurvives [0 ..< 256]) = 101"
  using roundTrip_digits [OF assms] roundTrip_iff [OF assms] alpha_byte [OF assms]
    surviving_bytes
  by (intro conjI) blast+

theorem hex_round_trip_witness:
  "parseHex ''#ff008040'' = Inr ''#FF008040'' \<and> hexRoundTrip ''#ff008040'' = Inr ''#FF008040''
   \<and> alphaSurvives ''#FF008040'' \<and> parseHex ''#abc'' = Inr ''#AABBCCFF''
   \<and> alphaSurvives ''#AABBCCFF''"
proof -
  have a: "parseHex ''#ff008040'' = Inr ''#FF008040''"
    by (simp add: parseHex_def HEX_REGEX_def isHexDigit_def toUpperCase_def toUpperChar_def)
  have b: "parseHex ''#abc'' = Inr ''#AABBCCFF''"
    by (simp add: parseHex_def HEX_REGEX_def isHexDigit_def toUpperCase_def toUpperChar_def
        charAt_def)
  have c: "alphaSurvives ''#FF008040''"
    by (simp add: alphaSurvives_def charAt_def stringToDecimals_def parseInt16_def isHexDigit_def
        hexDigitValue_def round_js_def)
  show ?thesis
    using hex_round_trip [OF a] hex_round_trip [OF b] a b c by simp
qed

theorem hex_round_trip_loses_alpha:
  "parseHex ''#00000001'' = Inr ''#00000001'' \<and> hexRoundTrip ''#00000001'' = Inr ''#00000000''"
  by (simp add: hexRoundTrip_def hexToRgb_def parseHex_def HEX_REGEX_def isHexDigit_def
      toUpperCase_def toUpperChar_def charAt_def stringToDecimals_def parseInt16_def
      hexDigitValue_def round_js_def rgbToHex_def validateRgb_def js_gt_def defaultAlpha_def
      padStart2_def hexDigitChar_def natToHex.simps)

section \<open>The representations of a Color\<close>

lemma validateRgb_without_alpha:
  assumes "validateRgb r g b (Some a) = Inr rgb"
  shows "validateRgb r g b None = Inr (rgb\<lparr>RedGreenBlueAlpha.alpha := Num 1\<rparr>)"
  using assms
  by (auto simp add: validateRgb_def defaultAlpha_def Let_def split: if_splits)

lemma rgbToHsl_without_alpha:
  assumes "rgbToHsl r g b (Some a) = Inr hsl"
  shows "rgbToHsl r g b None = Inr (hsl\<lparr>HueSaturationLightnessAlpha.alpha := Num 1\<rparr>)"
proof -
  from assms obtain rgb where v: "validateRgb r g b (Some a) = Inr rgb"
    by (auto simp add: rgbToHsl_def split: sum.splits)
  from assms have "Inr hsl = rgbToHsl r g b (Some a)" by simp
  then show ?thesis
    by (simp add: rgbToHsl_def v validateRgb_without_alpha [OF v] Let_def)
qed

lemma fromRgb_agrees:
  assumes "getAttributesFromRgb rgb = Inr c"
  shows "hexAgrees c \<and> hslAgrees c"
proof -
  from assms obtain hsl hexCodev
    where h: "rgbToHsl (RedGreenBlueAlpha.red rgb) (RedGreenBlueAlpha.green rgb)
                (RedGreenBlueAlpha.blue rgb) (Some (RedGreenBlueAlpha.alpha rgb)) = Inr hsl"
      and x: "rgbToHex (RedGreenBlueAlpha.red rgb) (RedGreenBlueAlpha.green rgb)
                (RedGreenBlueAlpha.blue rgb) (Some (RedGreenBlueAlpha.alpha rgb)) = Inr hexCodev"
      and c: "c = \<lparr>hexCode = hexCodev, red = RedGreenBlueAlpha.red rgb,
                   green = RedGreenBlueAlpha.green rgb, blue = RedGreenBlueAlpha.blue rgb,
                   hue = HueSaturationLightnessAlpha.hue hsl,
                   saturation = HueSaturationLightnessAlpha.saturation hsl,
                   lightness = HueSaturationLightnessAlpha.lightness hsl,
                   alpha = RedGreenBlueAlpha.alpha rgb\<rparr>"
    by (auto simp add: getAttributesFromRgb_def Let_def split: sum.splits)
  show ?thesis
    by (simp add: hexAgrees_def hslAgrees_def c x rgbToHsl_without_alpha [OF h])
qed

lemma fromHsl_agrees:
  assumes "getAttributesFromHsl hsl = Inr c"
  shows "hexAgrees c \<and> rgbAgrees c"
  using assms
  by (auto simp add: getAttributesFromHsl_def hexAgrees_def rgbAgrees_def Let_def
      split: sum.splits)

lemma parseHex_idem:
  assumes "parseHex H = Inr N"
  shows "parseHex N = Inr N"
proof -
  obtain c1 c2 c3 c4 c5 c6 c7 c8 where N: "N = [CHR ''#'', c1, c2, c3, c4, c5, c6, c7, c8]"
    and u: "isUpperHex c1" "isUpperHex c2" "isUpperHex c3" "isUpperHex c4"
           "isUpperHex c5" "isUpperHex c6" "isUpperHex c7" "isUpperHex c8"
    using parseHex_normal [OF assms] by blast
  have "HEX_REGEX N"
    using u by (simp add: HEX_REGEX_def N upperHex_facts(1))
  moreover have "toUpperCase N = N"
    using u by (simp add: toUpperCase_def N upperHex_facts(4)) (simp add: toUpperChar_def)
  ultimately show ?thesis by (simp add: parseHex_def N)
qed

lemma fromHex_agrees:
  assumes "getAttributesFromHex s = Inr c"
  shows "parseHex s = Inr (hexCode c) \<and> hexDecodes c \<and> hslAgrees c
         \<and> (hexAgrees c \<longleftrightarrow> alphaSurvives (hexCode c))"
proof -
  from assms obtain hexCodev rgb hsl
    where p: "parseHex s = Inr hexCodev" and r: "hexToRgb hexCodev = Inr rgb"
      and h: "rgbToHsl (RedGreenBlueAlpha.red rgb) (RedGreenBlueAlpha.green rgb)
                (RedGreenBlueAlpha.blue rgb) None = Inr hsl"
      and c: "c = \<lparr>hexCode = hexCodev, red = RedGreenBlueAlpha.red rgb,
                   green = RedGreenBlueAlpha.green rgb, blue = RedGreenBlueAlpha.blue rgb,
                   hue = HueSaturationLightnessAlpha.hue hsl,
                   saturation = HueSaturationLightnessAlpha.saturation hsl,
                   lightness = HueSaturationLightnessAlpha.lightness hsl,
                   alpha = RedGreenBlueAlpha.alpha rgb\<rparr>"
    by (auto simp add: getAttributesFromHex_def split: sum.splits)
  have d: "hexDecodes c" by (simp add: hexDecodes_def c r)
  have "hexRoundTrip hexCodev = rgbToHex (red c) (green c) (blue c) (Some (alpha c))"
    by (simp add: hexRoundTrip_def r c)
  then have "hexAgrees c \<longleftrightarrow> hexRoundTrip hexCodev = Inr hexCodev"
    by (simp add: hexAgrees_def c)
  then have "hexAgrees c \<longleftrightarrow> alphaSurvives (hexCode c)"
    using roundTrip_iff [OF parseHex_idem [OF p]] by (simp add: c)
  then show ?thesis using d by (simp add: p c hslAgrees_def h)
qed

lemma orange_from_hex: "new_Color ''#FF8000'' = Inr orange"
  by (simp add: model_defs orange_def)

lemma orange_from_rgb_string: "new_Color ''rgb(255, 128, 0)'' = Inr orange"
  by (simp add: model_defs orange_def)

lemma orange_from_hsl_string: "new_Color ''hsl(30, 100%, 50%)'' = Inr orange"
  by (simp add: model_defs orange_def)

lemma orange_from_rgb: "Color_rgb (Num 255) (Num 128) (Num 0) None = Inr orange"
  by (simp add: model_defs orange_def)

lemma orange_from_hsl: "Color_hsl (Num 30) (Num 1) (Num (1 / 2)) None = Inr orange"
  by (simp add: model_defs orange_def)

lemma orange_by_hue: "mutate Hue (Num 30) pure_red = (Inr (), orange)"
  by (simp add: model_defs orange_def pure_red_def)

lemma orange_by_green: "mutate Green (Num 128) pure_red = (Inr (), orange)"
  by (simp add: model_defs orange_def pure_red_def)

lemma new_Color_eq: "new_Color s = getAttributesFromString s"
  by (cases "getAttributesFromString s") (simp_all add: new_Color_def)

lemma fromAttributes_id: "fromAttributes r = r"
  by (cases r) (simp_all add: fromAttributes_def Color_white_eq setAttributes_result)

lemma setFromRgb_done:
  assumes "setFromRgb validated this = (Inr (), c)"
  shows "\<exists>rgb. getAttributesFromRgb rgb = Inr c"
  using assms
  by (auto simp add: setFromRgb_def andThen_def evaluate_def setAttributes_result
      split: sum.splits)

lemma setFromHsl_done:
  assumes "setFromHsl validated this = (Inr (), c)"
  shows "\<exists>hsl. getAttributesFromHsl hsl = Inr c"
  using assms
  by (auto simp add: setFromHsl_def andThen_def evaluate_def setAttributes_result
      split: sum.splits)

lemma mutate_agrees:
  assumes "mutate f v this = (Inr (), c)"
  shows "hexAgrees c \<and> (if f \<in> {Hue, Saturation, Lightness} then rgbAgrees c else hslAgrees c)"
proof (cases "f \<in> {Hue, Saturation, Lightness}")
  case True
  with assms have "\<exists>hsl. getAttributesFromHsl hsl = Inr c"
    by (cases f)
      (simp_all add: set_hue_def set_saturation_def set_lightness_def setFromHsl_done)
  then obtain hsl where "getAttributesFromHsl hsl = Inr c" by blast
  with True show ?thesis using fromHsl_agrees by simp
next
  case False
  with assms have "\<exists>rgb. getAttributesFromRgb rgb = Inr c"
    by (cases f)
      (simp_all add: set_red_def set_green_def set_blue_def set_alpha_def setFromRgb_done)
  then obtain rgb where "getAttributesFromRgb rgb = Inr c" by blast
  with False show ?thesis using fromRgb_agrees by simp
qed

lemma new_Color_agrees:
  assumes "new_Color s = Inr c"
  shows "(take 1 s = ''#'' \<longrightarrow>
            parseHex s = Inr (hexCode c) \<and> hexDecodes c \<and> hslAgrees c
            \<and> (hexAgrees c \<longleftrightarrow> alphaSurvives (hexCode c)))
         \<and> (take 1 s \<noteq> ''#'' \<and> includes_str s ''rgb'' \<longrightarrow> hexAgrees c \<and> hslAgrees c)
         \<and> (take 1 s \<noteq> ''#'' \<and> \<not> includes_str s ''rgb'' \<longrightarrow> hexAgrees c \<and> rgbAgrees c)"
proof (intro conjI impI)
  assume "take 1 s = ''#''"
  with assms have "getAttributesFromHex s = Inr c"
    by (simp add: new_Color_eq getAttributesFromString_def)
  then show "parseHex s = Inr (hexCode c)" "hexDecodes c" "hslAgrees c"
    "hexAgrees c \<longleftrightarrow> alphaSurvives (hexCode c)"
    using fromHex_agrees by blast+
next
  assume "take 1 s \<noteq> ''#'' \<and> includes_str s ''rgb''"
  with assms obtain rgb where "getAttributesFromRgb rgb = Inr c"
    by (auto simp add: new_Color_eq getAttributesFromString_def split: sum.splits)
  then show "hexAgrees c" "hslAgrees c" using fromRgb_agrees by blast+
next
  assume "take 1 s \<noteq> ''#'' \<and> \<not> includes_str s ''rgb''"
  with assms obtain hsl where "getAttributesFromHsl hsl = Inr c"
    by (auto simp add: new_Color_eq getAttributesFromString_def split: sum.splits if_splits)
  then show "hexAgrees c" "rgbAgrees c" using fromHsl_agrees by blast+
qed

text \<open>
  C2 (as amended). After construction from an rgb string, after \<open>Color.rgb\<close> and after every
  successful mutation of red, green, blue or alpha, the hex code is \<open>rgbToHex\<close> of the stored
  red, green, blue and alpha, and the stored hue, saturation and lightness are \<open>rgbToHsl\<close>
  of the stored red, green and blue. After construction from an hsl string, after
  \<open>Color.hsl\<close> and after every successful mutation of hue, saturation or lightness, the hex
  code is again \<open>rgbToHex\<close> of the stored red, green, blue and alpha, and the stored red,
  green and blue are \<open>hslToRgb\<close> of the stored hue, saturation and lightness. After
  construction from a hex string the hex code is the normalized input, the stored red, green,
  blue and alpha are \<open>hexToRgb\<close> of it, the stored hue, saturation and lightness are
  \<open>rgbToHsl\<close> of the stored red, green and blue, and the hex code is \<open>rgbToHex\<close> of the
  stored tuple exactly when its alpha byte survives the two-decimal alpha.
\<close>

theorem representations_agree:
  "(new_Color s = Inr c1 \<longrightarrow>
      (take 1 s = ''#'' \<longrightarrow>
         parseHex s = Inr (hexCode c1) \<and> hexDecodes c1 \<and> hslAgrees c1
         \<and> (hexAgrees c1 \<longleftrightarrow> alphaSurvives (hexCode c1)))
      \<and> (take 1 s \<noteq> ''#'' \<and> includes_str s ''rgb'' \<longrightarrow> hexAgrees c1 \<and> hslAgrees c1)
      \<and> (take 1 s \<noteq> ''#'' \<and> \<not> includes_str s ''rgb'' \<longrightarrow> hexAgrees c1 \<and> rgbAgrees c1))
   \<and> (Color_rgb r g b a = Inr c2 \<longrightarrow> hexAgrees c2 \<and> hslAgrees c2)
   \<and> (Color_hsl h sa l a' = Inr c3 \<longrightarrow> hexAgrees c3 \<and> rgbAgrees c3)
   \<and> (mutate f v this = (Inr (), c4) \<longrightarrow>
        hexAgrees c4
        \<and> (if f \<in> {Hue, Saturation, Lightness} then rgbAgrees c4 else hslAgrees c4))"
proof (intro conjI impI)
  assume "Color_rgb r g b a = Inr c2"
  then obtain rgb where "getAttributesFromRgb rgb = Inr c2"
    by (auto simp add: Color_rgb_def fromAttributes_id split: sum.splits)
  then show "hexAgrees c2" "hslAgrees c2" using fromRgb_agrees by blast+
next
  assume "Color_hsl h sa l a' = Inr c3"
  then obtain hsl where "getAttributesFromHsl hsl = Inr c3"
    by (auto simp add: Color_hsl_def fromAttributes_id split: sum.splits)
  then show "hexAgrees c3" "rgbAgrees c3" using fromHsl_agrees by blast+
next
  assume "mutate f v this = (Inr (), c4)"
  then show "hexAgrees c4"
    "if f \<in> {Hue, Saturation, Lightness} then rgbAgrees c4 else hslAgrees c4"
    using mutate_agrees by blast+
qed (use new_Color_agrees in blast)+

theorem representations_agree_witness:
  "new_Color ''#FF8000'' = Inr orange \<and> new_Color ''rgb(255, 128, 0)'' = Inr orange
   \<and> new_Color ''hsl(30, 100%, 50%)'' = Inr orange
   \<and> Color_rgb (Num 255) (Num 128) (Num 0) None = Inr orange
   \<and> Color_hsl (Num 30) (Num 1) (Num (1 / 2)) None = Inr orange
   \<and> mutate Hue (Num 30) pure_red = (Inr (), orange)
   \<and> mutate Green (Num 128) pure_red = (Inr (), orange)
   \<and> parseHex ''#FF8000'' = Inr (hexCode orange) \<and> alphaSurvives (hexCode orange)
   \<and> hexDecodes orange \<and> hexAgrees orange \<and> hslAgrees orange \<and> rgbAgrees orange"
  using
    representations_agree [of "''#FF8000''" orange "Num 255" "Num 128" "Num 0" None orange
      "Num 30" "Num 1" "Num (1 / 2)" None orange Hue "Num 30" pure_red orange]
    representations_agree [of "''rgb(255, 128, 0)''" orange "Num 255" "Num 128" "Num 0" None orange
      "Num 30" "Num 1" "Num (1 / 2)" None orange Green "Num 128" pure_red orange]
    representations_agree [of "''hsl(30, 100%, 50%)''" orange "Num 255" "Num 128" "Num 0" None orange
      "Num 30" "Num 1" "Num (1 / 2)" None orange Hue "Num 30" pure_red orange]
    orange_from_hex orange_from_rgb_string orange_from_hsl_string orange_from_rgb
    orange_from_hsl orange_by_hue orange_by_green
  by simp

theorem hex_state_disagrees:
  "new_Color ''#00000001''
     = Inr \<lparr>hexCode = ''#00000001'', red = Num 0, green = Num 0, blue = Num 0, hue = Num 0,
            saturation = Num 0, lightness = Num 0, alpha = Num 0\<rparr>
   \<and> rgbToHex (Num 0) (Num 0) (Num 0) (Some (Num 0)) = Inr ''#00000000''
   \<and> new_Color ''hsl(0, 50%, 1%)''
     = Inr \<lparr>hexCode = ''#040101FF'', red = Num 4, green = Num 1, blue = Num 1, hue = Num 0,
            saturation = Num (1 / 2), lightness = Num (1 / 100), alpha = Num 1\<rparr>
   \<and> rgbToHsl (Num 4) (Num 1) (Num 1) None
     = Inr \<lparr>HueSaturationLightnessAlpha.hue = Num 0, saturation = Num (59 / 100),
            lightness = Num (1 / 100), alpha = Num 1\<rparr>"
  by (simp add: model_defs)

end
